theory Spec2Isabelle
  imports Complex_Main "HOL-Library.AList"
begin

section \<open>Numbers\<close>

text \<open>
  The simulator computes with JavaScript numbers. They are modelled as exact reals
  extended by the three non-finite values of the language, so that every division by
  zero, every square root of a negative number and every comparison with \<open>NaN\<close> takes
  the branch the program takes. Rounding is not modelled, and there is a single zero
  (the program's \<open>-0\<close> is \<open>Num 0\<close>, which behaves as \<open>+0\<close>).
\<close>

datatype number = Num real | Infinity | NegInfinity | NaN

fun number_uminus :: "number \<Rightarrow> number" where
  "number_uminus (Num a) = Num (- a)"
| "number_uminus Infinity = NegInfinity"
| "number_uminus NegInfinity = Infinity"
| "number_uminus NaN = NaN"

fun number_plus :: "number \<Rightarrow> number \<Rightarrow> number" where
  "number_plus (Num a) (Num b) = Num (a + b)"
| "number_plus (Num a) Infinity = Infinity"
| "number_plus (Num a) NegInfinity = NegInfinity"
| "number_plus Infinity (Num b) = Infinity"
| "number_plus Infinity Infinity = Infinity"
| "number_plus Infinity NegInfinity = NaN"
| "number_plus NegInfinity (Num b) = NegInfinity"
| "number_plus NegInfinity Infinity = NaN"
| "number_plus NegInfinity NegInfinity = NegInfinity"
| "number_plus NaN b = NaN"
| "number_plus a NaN = NaN"

text \<open>The infinity whose sign is that of a product of two signs.\<close>

definition signed_infinity :: "bool \<Rightarrow> number" where
  "signed_infinity positive = (if positive then Infinity else NegInfinity)"

fun number_times :: "number \<Rightarrow> number \<Rightarrow> number" where
  "number_times (Num a) (Num b) = Num (a * b)"
| "number_times (Num a) Infinity = (if a = 0 then NaN else signed_infinity (0 < a))"
| "number_times (Num a) NegInfinity = (if a = 0 then NaN else signed_infinity (a < 0))"
| "number_times Infinity (Num b) = (if b = 0 then NaN else signed_infinity (0 < b))"
| "number_times NegInfinity (Num b) = (if b = 0 then NaN else signed_infinity (b < 0))"
| "number_times Infinity Infinity = Infinity"
| "number_times Infinity NegInfinity = NegInfinity"
| "number_times NegInfinity Infinity = NegInfinity"
| "number_times NegInfinity NegInfinity = Infinity"
| "number_times NaN b = NaN"
| "number_times a NaN = NaN"

fun number_divide :: "number \<Rightarrow> number \<Rightarrow> number" where
  "number_divide (Num a) (Num b) =
     (if b = 0 then (if a = 0 then NaN else signed_infinity (0 < a)) else Num (a / b))"
| "number_divide (Num a) Infinity = Num 0"
| "number_divide (Num a) NegInfinity = Num 0"
| "number_divide Infinity (Num b) = signed_infinity (0 \<le> b)"
| "number_divide NegInfinity (Num b) = signed_infinity (b < 0)"
| "number_divide Infinity Infinity = NaN"
| "number_divide Infinity NegInfinity = NaN"
| "number_divide NegInfinity Infinity = NaN"
| "number_divide NegInfinity NegInfinity = NaN"
| "number_divide NaN b = NaN"
| "number_divide a NaN = NaN"

fun number_less :: "number \<Rightarrow> number \<Rightarrow> bool" where
  "number_less (Num a) (Num b) = (a < b)"
| "number_less (Num a) Infinity = True"
| "number_less NegInfinity (Num b) = True"
| "number_less NegInfinity Infinity = True"
| "number_less a b = False"

fun number_less_eq :: "number \<Rightarrow> number \<Rightarrow> bool" where
  "number_less_eq (Num a) (Num b) = (a \<le> b)"
| "number_less_eq (Num a) Infinity = True"
| "number_less_eq NegInfinity (Num b) = True"
| "number_less_eq NegInfinity Infinity = True"
| "number_less_eq Infinity Infinity = True"
| "number_less_eq NegInfinity NegInfinity = True"
| "number_less_eq a b = False"

fun number_abs :: "number \<Rightarrow> number" where
  "number_abs (Num a) = Num \<bar>a\<bar>"
| "number_abs Infinity = Infinity"
| "number_abs NegInfinity = Infinity"
| "number_abs NaN = NaN"

text \<open>
  The operators of the program are written with the usual symbols: \<open>a + b\<close>, \<open>a - b\<close>,
  \<open>a * b\<close>, \<open>a / b\<close>, \<open>- a\<close>, \<open>a < b\<close>, \<open>a \<le> b\<close> and \<open>\<bar>a\<bar>\<close> (\<open>Math.abs\<close>) on
  \<^typ>\<open>number\<close> are the functions above. The program's \<open>a > b\<close> is \<open>b < a\<close>. No
  algebraic law is inherited: a comparison with \<open>NaN\<close> is false in both directions.
\<close>

instantiation number :: "{plus, minus, uminus, times, inverse, abs, ord}"
begin

definition plus_number :: "number \<Rightarrow> number \<Rightarrow> number" where
  "plus_number a b = number_plus a b"

definition uminus_number :: "number \<Rightarrow> number" where
  "uminus_number a = number_uminus a"

definition minus_number :: "number \<Rightarrow> number \<Rightarrow> number" where
  "minus_number a b = number_plus a (number_uminus b)"

definition times_number :: "number \<Rightarrow> number \<Rightarrow> number" where
  "times_number a b = number_times a b"

definition divide_number :: "number \<Rightarrow> number \<Rightarrow> number" where
  "divide_number a b = number_divide a b"

definition inverse_number :: "number \<Rightarrow> number" where
  "inverse_number a = number_divide (Num 1) a"

definition abs_number :: "number \<Rightarrow> number" where
  "abs_number a = number_abs a"

definition less_number :: "number \<Rightarrow> number \<Rightarrow> bool" where
  "less_number a b = number_less a b"

definition less_eq_number :: "number \<Rightarrow> number \<Rightarrow> bool" where
  "less_eq_number a b = number_less_eq a b"

instance ..

end

subsection \<open>The functions of \<open>Math\<close>\<close>

definition Math_PI :: number where
  "Math_PI = Num pi"

fun Math_sqrt :: "number \<Rightarrow> number" where
  "Math_sqrt (Num a) = (if a < 0 then NaN else Num (sqrt a))"
| "Math_sqrt Infinity = Infinity"
| "Math_sqrt NegInfinity = NaN"
| "Math_sqrt NaN = NaN"

fun Math_cos :: "number \<Rightarrow> number" where
  "Math_cos (Num a) = Num (cos a)"
| "Math_cos a = NaN"

text \<open>
  At an odd multiple of \<open>\<pi>/2\<close>, which no floating-point number is, the exact tangent
  has no value; the quotient of sine and cosine in \<^typ>\<open>number\<close> gives an infinity there.
\<close>

fun Math_tan :: "number \<Rightarrow> number" where
  "Math_tan (Num a) = Num (sin a) / Num (cos a)"
| "Math_tan a = NaN"

text \<open>\<open>Math.pow(a, 2)\<close>, the only power the program takes.\<close>

fun Math_pow2 :: "number \<Rightarrow> number" where
  "Math_pow2 (Num a) = Num (a * a)"
| "Math_pow2 Infinity = Infinity"
| "Math_pow2 NegInfinity = Infinity"
| "Math_pow2 NaN = NaN"

text \<open>\<open>Math.hypot\<close>: an infinite argument gives \<open>Infinity\<close> even beside \<open>NaN\<close>.\<close>

fun Math_hypot :: "number \<Rightarrow> number \<Rightarrow> number" where
  "Math_hypot (Num a) (Num b) = Num (sqrt (a * a + b * b))"
| "Math_hypot Infinity b = Infinity"
| "Math_hypot NegInfinity b = Infinity"
| "Math_hypot a Infinity = Infinity"
| "Math_hypot a NegInfinity = Infinity"
| "Math_hypot a b = NaN"

text \<open>The angle of the point \<open>(x, y)\<close> in \<open>(-\<pi>, \<pi>]\<close>, for finite coordinates.\<close>

definition atan2 :: "real \<Rightarrow> real \<Rightarrow> real" where
  "atan2 y x =
     (if 0 < x then arctan (y / x)
      else if x < 0 then (if 0 \<le> y then arctan (y / x) + pi else arctan (y / x) - pi)
      else if 0 < y then pi / 2
      else if y < 0 then - (pi / 2)
      else 0)"

fun Math_atan2 :: "number \<Rightarrow> number \<Rightarrow> number" where
  "Math_atan2 (Num y) (Num x) = Num (atan2 y x)"
| "Math_atan2 (Num y) Infinity = Num 0"
| "Math_atan2 (Num y) NegInfinity = (if 0 \<le> y then Num pi else Num (- pi))"
| "Math_atan2 Infinity (Num x) = Num (pi / 2)"
| "Math_atan2 NegInfinity (Num x) = Num (- (pi / 2))"
| "Math_atan2 Infinity Infinity = Num (pi / 4)"
| "Math_atan2 Infinity NegInfinity = Num (3 * pi / 4)"
| "Math_atan2 NegInfinity Infinity = Num (- (pi / 4))"
| "Math_atan2 NegInfinity NegInfinity = Num (- (3 * pi / 4))"
| "Math_atan2 NaN x = NaN"
| "Math_atan2 y NaN = NaN"


section \<open>The surveillance radar (\<open>src/classes/SAM.ts\<close>)\<close>

subsection \<open>Data\<close>

definition RADAR_HEIGHT :: number where
  "RADAR_HEIGHT = Num 0.025"

definition MIN_ELEVATION :: number where
  "MIN_ELEVATION = Num (- 5) * (Math_PI / Num 180)"

definition MAX_ELEVATION :: number where
  "MAX_ELEVATION = Num 50 * (Math_PI / Num 180)"

definition MAX_DISTANCE :: number where
  "MAX_DISTANCE = Num 120"

definition RADAR_AZIMUT_DETECT_ACCURACY :: number where
  "RADAR_AZIMUT_DETECT_ACCURACY = Num 4 * (Math_PI / Num 180)"

definition RADAR_ELEVATION_DETECT_ACCURACY :: number where
  "RADAR_ELEVATION_DETECT_ACCURACY = Num 18 * (Math_PI / Num 180)"

definition RADAR_DISTANCE_DETECT_ACCURACY :: number where
  "RADAR_DISTANCE_DETECT_ACCURACY = Num 0.1"

text \<open>
  Modelled from the spec: the classes \<open>FlightObject\<close> and \<open>SAMissile\<close>, which the
  program imports from files that are not among its sources here. The records below hold
  the fields that the specification lists for them and that the two radar classes read.
  The coordinates \<open>x\<close>, \<open>y\<close>, \<open>z\<close>, \<open>v\<close> of a point are the fields \<open>coord_x\<close>,
  \<open>coord_y\<close>, \<open>coord_z\<close>, \<open>coord_v\<close>. A flight object is identified by a string (the
  field \<open>fo_identifier\<close>), so the program's \<open>identifier!\<close> is the identifier itself; a
  missile is identified by a number (\<open>missile_identifier\<close>, which the tracking radar
  reads under the name \<open>indentifier\<close>). What the methods \<open>kill()\<close> and
  \<open>destroyMissile()\<close> do to their object is not known here: they are parameters of every
  function that calls them, and they act on the object they are called on.
\<close>

record Point =
  coord_x :: number
  coord_y :: number
  coord_z :: number
  coord_v :: number

record FlightObject =
  fo_identifier :: string
  currentPoint :: Point
  currentRotation :: number
  velocity :: number
  rcs :: number
  isLaunched :: bool
  isDestroyed :: bool

record SAMissile =
  missile_identifier :: nat
  missileCurrentPoint :: Point
  missile_velocity :: number
  missileTargetDistance :: number
  missileKillRadius :: number
  isDestroyedMissile :: bool

text \<open>\<open>IRecognizedTargets\<close> and \<open>IFlightMissiles\<close>; the fields carry a prefix.\<close>

record IRecognizedTargets =
  t_identifier :: string
  t_distance :: number
  t_azimut :: number
  t_elevation :: number
  t_radialVelocity :: number
  t_velocity :: number
  t_height :: number
  t_param :: number
  t_x :: number
  t_y :: number
  t_rotation :: number
  t_size :: number
  t_visibilityK :: number

record IFlightMissiles =
  m_identifier :: nat
  m_x :: number
  m_y :: number
  m_z :: number
  m_velocity :: number

text \<open>The calls of the event listener, in the order in which they are made.\<close>

datatype sam_event =
  Delete string
| Update "IRecognizedTargets list" "IFlightMissiles list"
| UpdateBIP "FlightObject list"

text \<open>
  The two tables of the class are JavaScript objects used as dictionaries. They are
  association lists in insertion order, which is the order in which \<open>Object.keys\<close>
  lists keys that are not array indices: an assignment to a present key keeps its place,
  an assignment to an absent key appends it, \<open>delete\<close> removes it.
\<close>

record SAM =
  isEnabled :: bool
  flightObjects :: "FlightObject list"
  missiles :: "SAMissile list"
  recognizedTargets :: "(string \<times> IRecognizedTargets) list"
  flightMissiles :: "(nat \<times> IFlightMissiles) list"
  emitted :: "sam_event list"

definition eventListener_call :: "sam_event \<Rightarrow> SAM \<Rightarrow> SAM" where
  "eventListener_call e s = s\<lparr>emitted := emitted s @ [e]\<rparr>"

subsection \<open>Recognition of targets\<close>

definition isInVision :: "FlightObject \<Rightarrow> number \<Rightarrow> bool" where
  "isInVision flightObject targetDistance =
     (let height = coord_z (currentPoint flightObject)
      in targetDistance <
           Math_sqrt (Num 2 * Num 6371.009 * RADAR_HEIGHT) +
           Math_sqrt (Num 2 * Num 6371.009 * height))"

text \<open>The body of the loop of \<open>recalculateTargets\<close>, for one flight object.\<close>

definition recalculateTarget :: "FlightObject \<Rightarrow> SAM \<Rightarrow> SAM" where
  "recalculateTarget flightObject s =
     (if \<not> isLaunched flightObject then s
      else if \<not> isDestroyed flightObject then
        (let targetDistance =
               Math_hypot (coord_x (currentPoint flightObject))
                          (coord_y (currentPoint flightObject));
             targetAzimut =
               Math_atan2 (coord_y (currentPoint flightObject))
                          (coord_x (currentPoint flightObject));
             targetHeightOffset = coord_z (currentPoint flightObject) - RADAR_HEIGHT;
             targetElevation = targetHeightOffset / targetDistance;
             targetAngle =
               (if currentRotation flightObject < targetAzimut
                then targetAzimut - currentRotation flightObject
                else currentRotation flightObject - targetAzimut) - Math_PI;
             radialVelocity = velocity flightObject * Math_cos targetAngle;
             isTargetVisible = isInVision flightObject targetDistance;
             targetParam = \<bar>targetDistance * Math_tan targetAngle\<bar>;
             targetSize = Num 2 * Math_sqrt (rcs flightObject / Math_PI) / Num 1000;
             inAllowedElevation =
               (MIN_ELEVATION < targetElevation \<and> targetElevation < MAX_ELEVATION);
             visibilityK = (MAX_DISTANCE * rcs flightObject) / targetDistance
         in if isTargetVisible \<and> inAllowedElevation then
              s\<lparr>recognizedTargets :=
                  AList.update (fo_identifier flightObject)
                    \<lparr>t_identifier = fo_identifier flightObject,
                     t_distance = targetDistance,
                     t_azimut =
                       (if targetAzimut < Num 0 then Num 2 * Math_PI + targetAzimut
                        else targetAzimut),
                     t_elevation = targetElevation,
                     t_radialVelocity = radialVelocity,
                     t_velocity = coord_v (currentPoint flightObject),
                     t_height = coord_z (currentPoint flightObject),
                     t_param = targetParam,
                     t_x = coord_x (currentPoint flightObject),
                     t_y = coord_y (currentPoint flightObject),
                     t_rotation = currentRotation flightObject,
                     t_size = targetSize,
                     t_visibilityK = (if Num 1 < visibilityK then Num 1 else visibilityK)\<rparr>
                    (recognizedTargets s)\<rparr>
            else
              (let s1 = eventListener_call (Delete (fo_identifier flightObject)) s
               in s1\<lparr>recognizedTargets :=
                       AList.delete (fo_identifier flightObject) (recognizedTargets s1)\<rparr>))
      else
        (let s1 = eventListener_call (Delete (fo_identifier flightObject)) s
         in s1\<lparr>recognizedTargets :=
                 AList.delete (fo_identifier flightObject) (recognizedTargets s1)\<rparr>))"

text \<open>
  \<open>recalculateTargets\<close> runs the body for the flight objects in registry order. The
  loop reads the objects and changes only the table and the event log.
\<close>

definition recalculateTargets :: "SAM \<Rightarrow> SAM" where
  "recalculateTargets s = fold recalculateTarget (flightObjects s) s"

subsection \<open>The correlation query\<close>

text \<open>
  \<open>getTargetOnAzimutAndElevation\<close>: the first key, in the order of the table, whose
  entry lies in both windows. The result of \<open>find\<close> passes through \<open>|| null\<close>, which
  turns the empty string into \<open>null\<close> as well.
\<close>

definition getTargetOnAzimutAndElevation :: "SAM \<Rightarrow> number \<Rightarrow> number \<Rightarrow> string option" where
  "getTargetOnAzimutAndElevation s azimut elevation =
     (case find (\<lambda>(key, target).
              \<bar>t_azimut target - azimut\<bar> \<le> RADAR_AZIMUT_DETECT_ACCURACY / Num 2 \<and>
              \<bar>elevation - t_elevation target\<bar> \<le> RADAR_ELEVATION_DETECT_ACCURACY / Num 2)
            (recognizedTargets s) of
        None \<Rightarrow> None
      | Some (key, target) \<Rightarrow> (if key = [] then None else Some key))"


definition getTargetOnAzimutElevationAndDistance ::
    "SAM \<Rightarrow> number \<Rightarrow> number \<Rightarrow> number \<Rightarrow> string option" where
  "getTargetOnAzimutElevationAndDistance s azimut elevation distance =
     (case getTargetOnAzimutAndElevation s azimut elevation of
        None \<Rightarrow> None
      | Some key \<Rightarrow>
          (case map_of (recognizedTargets s) key of
             None \<Rightarrow> None
           | Some target \<Rightarrow>
               (if \<bar>t_distance target - distance\<bar> \<le> RADAR_DISTANCE_DETECT_ACCURACY / Num 2
                then Some key else None)))"

subsection \<open>The missile sweep\<close>

text \<open>
  The body of the loop of \<open>recalculateMissiles\<close> for the missile at index \<open>i\<close> of the
  registry. \<open>destroyMissile\<close> and \<open>kill\<close> are the two methods of the absent classes;
  each changes the object it is called on. The position and the kill radius of the
  missile are read after \<open>destroyMissile()\<close> has returned. \<open>filter\<close> tests every flight
  object before \<open>map\<close> kills the ones that passed.
\<close>

definition distanceToMissile :: "FlightObject \<Rightarrow> SAMissile \<Rightarrow> number" where
  "distanceToMissile fo missile =
     (let x = coord_x (currentPoint fo);
          y = coord_y (currentPoint fo);
          z = coord_z (currentPoint fo)
      in Math_sqrt
           (Math_pow2 (x - coord_x (missileCurrentPoint missile)) +
            Math_pow2 (y - coord_y (missileCurrentPoint missile)) +
            Math_pow2 (z - coord_z (missileCurrentPoint missile))))"

definition recalculateMissile ::
    "(FlightObject \<Rightarrow> FlightObject) \<Rightarrow> (SAMissile \<Rightarrow> SAMissile) \<Rightarrow> nat \<Rightarrow> SAM \<Rightarrow> SAM" where
  "recalculateMissile kill destroyMissile i s =
     (let missile = missiles s ! i
      in if \<not> isDestroyedMissile missile then
           (let s1 = s\<lparr>flightMissiles :=
                        AList.update (missile_identifier missile)
                          \<lparr>m_identifier = missile_identifier missile,
                           m_x = coord_x (missileCurrentPoint missile),
                           m_y = coord_y (missileCurrentPoint missile),
                           m_z = coord_z (missileCurrentPoint missile),
                           m_velocity = missile_velocity missile\<rparr>
                          (flightMissiles s)\<rparr>
            in if missileTargetDistance missile \<le> missileKillRadius missile then
                 (let missile' = destroyMissile missile;
                      s2 = s1\<lparr>missiles := (missiles s1)[i := missile']\<rparr>
                  in s2\<lparr>flightObjects :=
                          map (\<lambda>fo. if distanceToMissile fo missile' \<le> missileKillRadius missile'
                                    then kill fo else fo)
                              (flightObjects s2)\<rparr>)
               else s1)
         else s\<lparr>flightMissiles := AList.delete (missile_identifier missile) (flightMissiles s)\<rparr>)"

definition recalculateMissiles ::
    "(FlightObject \<Rightarrow> FlightObject) \<Rightarrow> (SAMissile \<Rightarrow> SAMissile) \<Rightarrow> SAM \<Rightarrow> SAM" where
  "recalculateMissiles kill destroyMissile s =
     fold (recalculateMissile kill destroyMissile) [0 ..< length (missiles s)] s"

subsection \<open>Construction, registration and the two timers\<close>

definition new_SAM :: SAM where
  "new_SAM = \<lparr>isEnabled = False, flightObjects = [], missiles = [],
              recognizedTargets = [], flightMissiles = [], emitted = []\<rparr>"

definition setIsEnabled :: "bool \<Rightarrow> SAM \<Rightarrow> SAM" where
  "setIsEnabled b s = s\<lparr>isEnabled := b\<rparr>"

definition addFlightObject :: "FlightObject \<Rightarrow> SAM \<Rightarrow> SAM" where
  "addFlightObject flightObject s = s\<lparr>flightObjects := flightObjects s @ [flightObject]\<rparr>"

definition addMissile :: "SAMissile \<Rightarrow> SAM \<Rightarrow> SAM" where
  "addMissile missile s = s\<lparr>missiles := missiles s @ [missile]\<rparr>"

text \<open>One firing of the first timer of \<open>tick\<close>, and one of the second.\<close>

definition tick_update ::
    "(FlightObject \<Rightarrow> FlightObject) \<Rightarrow> (SAMissile \<Rightarrow> SAMissile) \<Rightarrow> SAM \<Rightarrow> SAM" where
  "tick_update kill destroyMissile s =
     (if isEnabled s then
        (let s1 = recalculateTargets s;
             s2 = recalculateMissiles kill destroyMissile s1
         in eventListener_call
              (Update (map snd (recognizedTargets s2)) (map snd (flightMissiles s2))) s2)
      else s)"

definition tick_updateBIP :: "SAM \<Rightarrow> SAM" where
  "tick_updateBIP s =
     (if isEnabled s then eventListener_call (UpdateBIP (flightObjects s)) s else s)"

subsection \<open>What the loop body decides, by name\<close>

text \<open>
  The quantities of the loop body of \<open>recalculateTargets\<close> as functions of the flight
  object, for use in the statements below.
\<close>

definition sam_distance :: "FlightObject \<Rightarrow> number" where
  "sam_distance fo = Math_hypot (coord_x (currentPoint fo)) (coord_y (currentPoint fo))"

definition sam_azimut :: "FlightObject \<Rightarrow> number" where
  "sam_azimut fo = Math_atan2 (coord_y (currentPoint fo)) (coord_x (currentPoint fo))"

definition sam_elevation :: "FlightObject \<Rightarrow> number" where
  "sam_elevation fo = (coord_z (currentPoint fo) - RADAR_HEIGHT) / sam_distance fo"

definition sam_targetAngle :: "FlightObject \<Rightarrow> number" where
  "sam_targetAngle fo =
     (if currentRotation fo < sam_azimut fo
      then sam_azimut fo - currentRotation fo
      else currentRotation fo - sam_azimut fo) - Math_PI"

definition horizonVisible :: "FlightObject \<Rightarrow> bool" where
  "horizonVisible fo = isInVision fo (sam_distance fo)"

definition inElevationGate :: "FlightObject \<Rightarrow> bool" where
  "inElevationGate fo =
     (MIN_ELEVATION < sam_elevation fo \<and> sam_elevation fo < MAX_ELEVATION)"

definition recognizable :: "FlightObject \<Rightarrow> bool" where
  "recognizable fo = (\<not> isDestroyed fo \<and> horizonVisible fo \<and> inElevationGate fo)"

definition targetEntry :: "FlightObject \<Rightarrow> IRecognizedTargets" where
  "targetEntry fo =
     \<lparr>t_identifier = fo_identifier fo,
      t_distance = sam_distance fo,
      t_azimut = (if sam_azimut fo < Num 0 then Num 2 * Math_PI + sam_azimut fo
                  else sam_azimut fo),
      t_elevation = sam_elevation fo,
      t_radialVelocity = velocity fo * Math_cos (sam_targetAngle fo),
      t_velocity = coord_v (currentPoint fo),
      t_height = coord_z (currentPoint fo),
      t_param = \<bar>sam_distance fo * Math_tan (sam_targetAngle fo)\<bar>,
      t_x = coord_x (currentPoint fo),
      t_y = coord_y (currentPoint fo),
      t_rotation = currentRotation fo,
      t_size = Num 2 * Math_sqrt (rcs fo / Math_PI) / Num 1000,
      t_visibilityK = (if Num 1 < MAX_DISTANCE * rcs fo / sam_distance fo then Num 1
                       else MAX_DISTANCE * rcs fo / sam_distance fo)\<rparr>"


subsection \<open>What the missile sweep decides, by name\<close>

text \<open>
  The Euclidean distance in three dimensions between two points, as the specification
  words it: the square root of the sum of the squares of the three coordinate
  differences. It is written here without reference to the program; that
  \<open>distanceToMissile\<close> computes it is a lemma below.
\<close>

definition euclidean_distance :: "Point \<Rightarrow> Point \<Rightarrow> number" where
  "euclidean_distance p q =
     Math_sqrt
       ((coord_x p - coord_x q) * (coord_x p - coord_x q) +
        (coord_y p - coord_y q) * (coord_y p - coord_y q) +
        (coord_z p - coord_z q) * (coord_z p - coord_z q))"

text \<open>
  A missile detonates in a sweep when it is live and its target is within its kill
  radius; \<open>killNear\<close> kills the flight objects within the kill radius of a (just
  destroyed) missile, by Euclidean distance, and leaves the others; \<open>snapshot\<close> is the
  table entry of a live missile.
\<close>

definition detonates :: "SAMissile \<Rightarrow> bool" where
  "detonates m = (\<not> isDestroyedMissile m \<and> missileTargetDistance m \<le> missileKillRadius m)"

definition killNear ::
    "(FlightObject \<Rightarrow> FlightObject) \<Rightarrow> SAMissile \<Rightarrow> FlightObject list \<Rightarrow> FlightObject list" where
  "killNear kill m fos =
     map (\<lambda>fo. if euclidean_distance (currentPoint fo) (missileCurrentPoint m)
                      \<le> missileKillRadius m
               then kill fo else fo) fos"

definition snapshot :: "SAMissile \<Rightarrow> IFlightMissiles" where
  "snapshot m =
     \<lparr>m_identifier = missile_identifier m,
      m_x = coord_x (missileCurrentPoint m),
      m_y = coord_y (missileCurrentPoint m),
      m_z = coord_z (missileCurrentPoint m),
      m_velocity = missile_velocity m\<rparr>"

section \<open>The tracking radar (class \<open>SNR\<close>)\<close>

subsection \<open>Data\<close>

text \<open>
  Everything the class does to the outside is recorded in order: the calls of the event
  listener and the calls of the three screens. The payloads of \<open>targetDistance\<close> and
  \<open>targetHeight\<close> are the numbers that the program formats with \<open>toFixed\<close>.
\<close>

datatype snr_effect =
  Event_isCapturedByDirection bool
| Event_isCapturedByDistance bool
| Event_targetDistance number
| Event_targetVelocity number
| Event_targetHeight number
| IndicatorsScreen_setAzimut number
| IndicatorsScreen_setVerticalAngle number
| TargetScreen_setTargetParams string number number number number
| TargetScreen_removeTarget string
| TargetScreen_setMissileParams nat number number
| TargetScreen_removeMissile nat
| DistanceScreen_setTargetParams string number number number number
| DistanceScreen_removeTarget string
| DistanceScreen_setDistance number
| DistanceScreen_setMissileParams nat number
| DistanceScreen_removeMissile nat

text \<open>
  The callbacks that the class hands to \<open>setInterval\<close>. The two follow loops close over
  a flight object: the closure is the index of the object in the registry, which only
  grows. \<open>trackTargetByDistance\<close> closes over the result of a \<open>find\<close>, which may be
  \<open>undefined\<close>.
\<close>

datatype callback = Tick | FollowDirection nat | FollowDistance "nat option"

text \<open>
  The fields of the class, then the part of the environment that the class acts on:
  the table of running intervals with the next free handle (handles are positive), the
  values that \<open>Math.random\<close> will return with the number already drawn, and the record of
  effects. The registries of the class are the fields \<open>snr_flightObjects\<close> and
  \<open>snr_missiles\<close>; \<open>eventListener\<close> tells whether a listener is set.
\<close>

record SNR =
  azimut :: number
  verticalAngle :: number
  targetDistance :: number
  minVerticalAngle :: number
  maxVerticalAngle :: number
  maxDistance :: number
  snr_flightObjects :: "FlightObject list"
  rayWidth :: number
  distanceTrackingAccuracy :: number
  distanceDetectRange :: number
  radarHeight :: number
  trackTargetInterval :: "nat option"
  trackTargetDistanceInterval :: "nat option"
  trackingTargetIdentifier :: "string option"
  eventListener :: bool
  snr_missiles :: "SAMissile list"
  intervals :: "(nat \<times> callback) list"
  nextHandle :: nat
  randoms :: "nat \<Rightarrow> number"
  drawn :: nat
  effects :: "snr_effect list"

definition setInterval :: "callback \<Rightarrow> SNR \<Rightarrow> nat \<times> SNR" where
  "setInterval cb s =
     (nextHandle s,
      s\<lparr>intervals := intervals s @ [(nextHandle s, cb)], nextHandle := Suc (nextHandle s)\<rparr>)"

definition clearInterval :: "nat \<Rightarrow> SNR \<Rightarrow> SNR" where
  "clearInterval h s = s\<lparr>intervals := filter (\<lambda>(h', cb). h' \<noteq> h) (intervals s)\<rparr>"

text \<open>\<open>handle && clearInterval(handle)\<close>: \<open>null\<close> and \<open>0\<close> are falsy.\<close>

definition truthy :: "nat option \<Rightarrow> bool" where
  "truthy h = (case h of None \<Rightarrow> False | Some n \<Rightarrow> n \<noteq> 0)"

definition clearIfSet :: "nat option \<Rightarrow> SNR \<Rightarrow> SNR" where
  "clearIfSet h s = (case h of None \<Rightarrow> s | Some n \<Rightarrow> if n = 0 then s else clearInterval n s)"

text \<open>\<open>this.eventListener && this.eventListener(...)\<close>, and a call of a screen.\<close>

definition emit :: "snr_effect \<Rightarrow> SNR \<Rightarrow> SNR" where
  "emit e s = (if eventListener s then s\<lparr>effects := effects s @ [e]\<rparr> else s)"

definition screen :: "snr_effect \<Rightarrow> SNR \<Rightarrow> SNR" where
  "screen e s = s\<lparr>effects := effects s @ [e]\<rparr>"

definition Math_random :: "SNR \<Rightarrow> number \<times> SNR" where
  "Math_random s = (randoms s (drawn s), s\<lparr>drawn := Suc (drawn s)\<rparr>)"

text \<open>The constructor: field initialisers, the assignments, and the interval it starts.\<close>

definition new_SNR :: "number \<Rightarrow> number \<Rightarrow> number \<Rightarrow> number \<Rightarrow> (nat \<Rightarrow> number) \<Rightarrow> SNR" where
  "new_SNR distanceDetectRange' initialDistance initialRayWidth maxDistance' rnd =
     \<lparr>azimut = - Math_PI / Num 2,
      verticalAngle = Num 0,
      targetDistance = initialDistance,
      minVerticalAngle = Num (- 5),
      maxVerticalAngle = Num 75,
      maxDistance = maxDistance',
      snr_flightObjects = [],
      rayWidth = initialRayWidth,
      distanceTrackingAccuracy = Num 0.2,
      distanceDetectRange = distanceDetectRange',
      radarHeight = Num 36,
      trackTargetInterval = None,
      trackTargetDistanceInterval = None,
      trackingTargetIdentifier = None,
      eventListener = True,
      snr_missiles = [],
      intervals = [(1, Tick)],
      nextHandle = 2,
      randoms = rnd,
      drawn = 0,
      effects = []\<rparr>"

subsection \<open>Manual steering and registration\<close>

definition setAzimut :: "number \<Rightarrow> SNR \<Rightarrow> SNR" where
  "setAzimut azimut0 s =
     (let azimut1 = (if Num 360 < azimut0 then azimut0 - Num 360 else azimut0);
          azimut2 = (if azimut1 < Num 0 then Num 360 + azimut1 else azimut1);
          azimut3 = (if Num 270 < azimut2 then azimut2 - Num 360 else azimut2);
          s1 = s\<lparr>azimut := (azimut3 - Num 90) * Math_PI / Num 180\<rparr>
      in screen (IndicatorsScreen_setAzimut (azimut s1)) s1)"

definition setVerticalAngle :: "number \<Rightarrow> SNR \<Rightarrow> SNR" where
  "setVerticalAngle verticalAngle' s =
     (if minVerticalAngle s < verticalAngle' \<and> verticalAngle' < maxVerticalAngle s then
        (let s1 = s\<lparr>verticalAngle := verticalAngle' * Math_PI / Num 180\<rparr>
         in screen (IndicatorsScreen_setVerticalAngle (verticalAngle s1)) s1)
      else s)"

definition setRadarRayWidth :: "number \<Rightarrow> SNR \<Rightarrow> SNR" where
  "setRadarRayWidth deg s = s\<lparr>rayWidth := deg\<rparr>"

definition snr_addFlightObject :: "FlightObject \<Rightarrow> SNR \<Rightarrow> SNR" where
  "snr_addFlightObject flightObject s =
     s\<lparr>snr_flightObjects := snr_flightObjects s @ [flightObject]\<rparr>"

definition snr_addMissile :: "SAMissile \<Rightarrow> SNR \<Rightarrow> SNR" where
  "snr_addMissile missile s = s\<lparr>snr_missiles := snr_missiles s @ [missile]\<rparr>"

definition setIndicatorTargetDistance :: "number \<Rightarrow> SNR \<Rightarrow> SNR" where
  "setIndicatorTargetDistance distance s =
     (if Num 0 < distance \<and> distance < maxDistance s then
        screen (DistanceScreen_setDistance distance) (s\<lparr>targetDistance := distance\<rparr>)
      else s)"

subsection \<open>The two capture state machines\<close>

definition resetCaptureTargetByDistance :: "SNR \<Rightarrow> SNR" where
  "resetCaptureTargetByDistance s =
     (let s1 = clearIfSet (trackTargetDistanceInterval s) s;
          s2 = s1\<lparr>trackTargetDistanceInterval := None\<rparr>
      in emit (Event_isCapturedByDistance False) s2)"

definition resetCaptureTargetByDirection :: "(SAMissile \<Rightarrow> SAMissile) \<Rightarrow> SNR \<Rightarrow> SNR" where
  "resetCaptureTargetByDirection destroyMissile s =
     (let s1 = clearIfSet (trackTargetInterval s) s;
          s2 = s1\<lparr>trackTargetInterval := None, trackingTargetIdentifier := None\<rparr>;
          s3 = emit (Event_isCapturedByDirection False) s2;
          s4 = s3\<lparr>snr_missiles := map destroyMissile (snr_missiles s3)\<rparr>
      in resetCaptureTargetByDistance s4)"

text \<open>
  \<open>trackTargetByDirection\<close> for the flight object at index \<open>i\<close>: it starts the follow
  loop, whose body is \<open>followDirection\<close> below.
\<close>

definition trackTargetByDirection :: "nat \<Rightarrow> FlightObject \<Rightarrow> SNR \<Rightarrow> SNR" where
  "trackTargetByDirection i flightObject s =
     (let s1 = clearIfSet (trackTargetInterval s) s;
          s2 = s1\<lparr>trackingTargetIdentifier := Some (fo_identifier flightObject)\<rparr>;
          (h, s3) = setInterval (FollowDirection i) s2
      in s3\<lparr>trackTargetInterval := Some h\<rparr>)"

text \<open>The test of \<open>captureTargetByDirection\<close> for one flight object.\<close>

definition capturedByDirection :: "SNR \<Rightarrow> FlightObject \<Rightarrow> bool" where
  "capturedByDirection s flightObject =
     (let targetAzimutAngle =
            Math_atan2 (coord_y (currentPoint flightObject))
                       (coord_x (currentPoint flightObject));
          targetDistance' =
            Math_hypot (coord_x (currentPoint flightObject))
                       (coord_y (currentPoint flightObject));
          rayWidthRad = rayWidth s * Math_PI / Num 180;
          rayWidth' = (Math_PI * rayWidthRad * targetDistance') / Num 180;
          targetSpotAngle =
            ((Num 2 * Math_sqrt (rcs flightObject / Math_PI) / Num 1000) / targetDistance')
              / rayWidth';
          isCapturedByAzimut = (\<bar>azimut s - targetAzimutAngle\<bar> < \<bar>targetSpotAngle\<bar> * Num 2);
          targetHeightOffset = coord_z (currentPoint flightObject) - radarHeight s / Num 1000;
          targetVerticalAngle = targetHeightOffset / targetDistance';
          isCapturedByVerticalAngle =
            (\<bar>verticalAngle s - targetVerticalAngle\<bar> < \<bar>targetSpotAngle\<bar>)
      in isCapturedByAzimut \<and> isCapturedByVerticalAngle)"

text \<open>The body of the \<open>forEach\<close> of \<open>captureTargetByDirection\<close>, and the method.\<close>

definition captureByDirection_step :: "nat \<times> FlightObject \<Rightarrow> SNR \<Rightarrow> SNR" where
  "captureByDirection_step p s =
     (case p of (i, flightObject) \<Rightarrow>
        if capturedByDirection s flightObject then
          emit (Event_isCapturedByDirection True) (trackTargetByDirection i flightObject s)
        else s)"

definition captureTargetByDirection :: "SNR \<Rightarrow> SNR" where
  "captureTargetByDirection s =
     fold captureByDirection_step (enumerate 0 (snr_flightObjects s)) s"

text \<open>
  \<open>trackTargetByDistance\<close>: the follow loop closes over the first flight object that
  carries the tracked identifier.
\<close>

definition trackTargetByDistance :: "SNR \<Rightarrow> SNR" where
  "trackTargetByDistance s =
     (let s1 = clearIfSet (trackTargetDistanceInterval s) s;
          flightObject =
            map_option fst
              (find (\<lambda>(i, fo). Some (fo_identifier fo) = trackingTargetIdentifier s1)
                 (enumerate 0 (snr_flightObjects s1)));
          (h, s2) = setInterval (FollowDistance flightObject) s1
      in s2\<lparr>trackTargetDistanceInterval := Some h\<rparr>)"

definition captureByDistance_step :: "FlightObject \<Rightarrow> SNR \<Rightarrow> SNR" where
  "captureByDistance_step flightObject s =
     (let targetDistance' =
            Math_hypot (coord_x (currentPoint flightObject))
                       (coord_y (currentPoint flightObject))
      in if \<bar>targetDistance' - targetDistance s\<bar> < distanceDetectRange s \<and>
            trackingTargetIdentifier s = Some (fo_identifier flightObject) then
           emit (Event_isCapturedByDistance True) (trackTargetByDistance s)
         else s)"

definition captureTargetByDistance :: "SNR \<Rightarrow> SNR" where
  "captureTargetByDistance s = fold captureByDistance_step (snr_flightObjects s) s"

subsection \<open>The bodies of the interval callbacks\<close>

text \<open>
  A follow loop whose flight object is missing (an index outside the registry, or the
  \<open>undefined\<close> of a failed \<open>find\<close>) changes nothing: in the program the first case does
  not arise and the second throws inside the callback.
\<close>

definition followDirection :: "(SAMissile \<Rightarrow> SAMissile) \<Rightarrow> nat \<Rightarrow> SNR \<Rightarrow> SNR" where
  "followDirection destroyMissile i s =
     (if length (snr_flightObjects s) \<le> i then s
      else
        (let flightObject = snr_flightObjects s ! i;
             targetAzimutAngle =
               Math_atan2 (coord_y (currentPoint flightObject))
                          (coord_x (currentPoint flightObject));
             targetHeightOffset = coord_z (currentPoint flightObject) - radarHeight s / Num 1000;
             targetDistance' =
               Math_hypot (coord_x (currentPoint flightObject))
                          (coord_y (currentPoint flightObject));
             targetVerticalAngle = targetHeightOffset / targetDistance';
             s1 = (if targetVerticalAngle < minVerticalAngle s * Math_PI / Num 180 \<or>
                      maxVerticalAngle s * Math_PI / Num 180 < targetVerticalAngle
                   then resetCaptureTargetByDistance
                          (resetCaptureTargetByDirection destroyMissile s)
                   else s)
         in s1\<lparr>azimut := targetAzimutAngle, verticalAngle := targetVerticalAngle\<rparr>))"

definition followDistance :: "(SAMissile \<Rightarrow> SAMissile) \<Rightarrow> nat option \<Rightarrow> SNR \<Rightarrow> SNR" where
  "followDistance destroyMissile r s =
     (case r of
        None \<Rightarrow> s
      | Some i \<Rightarrow>
          if length (snr_flightObjects s) \<le> i then s
          else
            (let flightObject = snr_flightObjects s ! i;
                 targetDistance' =
                   Math_hypot (coord_x (currentPoint flightObject))
                              (coord_y (currentPoint flightObject));
                 s1 = (if maxDistance s < targetDistance'
                       then resetCaptureTargetByDistance
                              (resetCaptureTargetByDirection destroyMissile s)
                       else s)
             in screen (DistanceScreen_setDistance targetDistance')
                  (s1\<lparr>targetDistance := targetDistance'\<rparr>)))"

text \<open>The body of the loop of \<open>calculateTargetsParams\<close>, and the method.\<close>

definition calculateTargetParams :: "(SAMissile \<Rightarrow> SAMissile) \<Rightarrow> FlightObject \<Rightarrow> SNR \<Rightarrow> SNR" where
  "calculateTargetParams destroyMissile flightObject s =
     (let s1 =
        (if isLaunched flightObject \<and> \<not> isDestroyed flightObject then
           (let targetDistance' =
                  Math_hypot (coord_x (currentPoint flightObject))
                             (coord_y (currentPoint flightObject));
                targetAzimutAngle =
                  Math_atan2 (coord_y (currentPoint flightObject))
                             (coord_x (currentPoint flightObject));
                targetHeightOffset =
                  coord_z (currentPoint flightObject) - radarHeight s / Num 1000;
                targetVerticalAngle = targetHeightOffset / targetDistance';
                rayWidthRad = rayWidth s * Math_PI / Num 180;
                targetAzimutOffset = azimut s - targetAzimutAngle;
                targetVerticalOffset = targetVerticalAngle - verticalAngle s
            in if \<bar>targetAzimutOffset\<bar> < rayWidthRad / Num 2 \<and>
                  \<bar>targetVerticalOffset\<bar> < rayWidthRad / Num 2 then
                 (let targetOffsetX = - (targetAzimutOffset / rayWidthRad * Num 2);
                      targetOffsetY = - (targetVerticalOffset / rayWidthRad * Num 2);
                      rayWidth' = (Math_PI * rayWidthRad * targetDistance') / Num 180;
                      targetSize = Num 2 * Math_sqrt (rcs flightObject / Math_PI) / Num 1000;
                      targetSpotSize = targetSize / rayWidth';
                      targetVisibilityK = targetDistance' / maxDistance s;
                      sa = screen (TargetScreen_setTargetParams (fo_identifier flightObject)
                                     targetVisibilityK targetSpotSize targetOffsetX targetOffsetY) s;
                      (r, sb) = Math_random sa;
                      targetSpotLength =
                        (targetSpotSize + (distanceTrackingAccuracy sb * r)) * rayWidth'
                  in screen (DistanceScreen_setTargetParams (fo_identifier flightObject)
                               targetVisibilityK targetDistance' targetSpotSize targetSpotLength) sb)
               else
                 screen (DistanceScreen_removeTarget (fo_identifier flightObject))
                   (screen (TargetScreen_removeTarget (fo_identifier flightObject)) s))
         else s);
        s2 =
          (if Some (fo_identifier flightObject) = trackingTargetIdentifier s1 \<and>
              truthy (trackTargetInterval s1) \<and> truthy (trackTargetDistanceInterval s1) \<and>
              eventListener s1 then
             screen (Event_targetHeight \<bar>coord_z (currentPoint flightObject) * Num 1000\<bar>)
               (screen (Event_targetVelocity (velocity flightObject))
                  (screen (Event_targetDistance (targetDistance s1)) s1))
           else s1)
      in if isDestroyed flightObject \<and>
            trackingTargetIdentifier s2 = Some (fo_identifier flightObject) then
           screen (DistanceScreen_removeTarget (fo_identifier flightObject))
             (screen (TargetScreen_removeTarget (fo_identifier flightObject))
                (resetCaptureTargetByDistance
                   (resetCaptureTargetByDirection destroyMissile s2)))
         else s2)"

definition calculateTargetsParams :: "(SAMissile \<Rightarrow> SAMissile) \<Rightarrow> SNR \<Rightarrow> SNR" where
  "calculateTargetsParams destroyMissile s =
     fold (calculateTargetParams destroyMissile) (snr_flightObjects s) s"

definition calculateMissile :: "SAMissile \<Rightarrow> SNR \<Rightarrow> SNR" where
  "calculateMissile missile s =
     (if \<not> isDestroyedMissile missile then
        (let missileDistance =
               Math_hypot (coord_x (missileCurrentPoint missile))
                          (coord_y (missileCurrentPoint missile));
             missileAzimutAngle =
               Math_atan2 (coord_y (missileCurrentPoint missile))
                          (coord_x (missileCurrentPoint missile));
             missileHeightOffset =
               coord_z (missileCurrentPoint missile) - radarHeight s / Num 1000;
             missileVerticalAngle = missileHeightOffset / missileDistance;
             rayWidthRad = rayWidth s * Math_PI / Num 180;
             missileAzimutOffset = azimut s - missileAzimutAngle;
             missileVerticalOffset = missileVerticalAngle - verticalAngle s;
             missileOffsetX = - (missileAzimutOffset / rayWidthRad * Num 2);
             missileOffsetY = - (missileVerticalOffset / rayWidthRad * Num 2)
         in screen (DistanceScreen_setMissileParams (missile_identifier missile) missileDistance)
              (screen (TargetScreen_setMissileParams (missile_identifier missile)
                         missileOffsetX missileOffsetY) s))
      else
        screen (DistanceScreen_removeMissile (missile_identifier missile))
          (screen (TargetScreen_removeMissile (missile_identifier missile)) s))"

definition calculateMissiles :: "SNR \<Rightarrow> SNR" where
  "calculateMissiles s = fold calculateMissile (snr_missiles s) s"

definition run_callback :: "(SAMissile \<Rightarrow> SAMissile) \<Rightarrow> callback \<Rightarrow> SNR \<Rightarrow> SNR" where
  "run_callback destroyMissile cb s =
     (case cb of
        Tick \<Rightarrow> calculateMissiles (calculateTargetsParams destroyMissile s)
      | FollowDirection i \<Rightarrow> followDirection destroyMissile i s
      | FollowDistance r \<Rightarrow> followDistance destroyMissile r s)"

subsection \<open>The reachable states\<close>

text \<open>
  What can happen to a tracking radar: a call of one of its public methods, the firing
  of one of its running intervals, and a change made from outside to the flight objects
  and missiles it holds (their fields change; the objects, and the identifiers of the
  flight objects, stay).
\<close>

datatype action =
  Call_setAzimut number
| Call_setVerticalAngle number
| Call_setRadarRayWidth number
| Call_addFlightObject FlightObject
| Call_addMissile SAMissile
| Call_setIndicatorTargetDistance number
| Call_captureTargetByDirection
| Call_resetCaptureTargetByDirection
| Call_captureTargetByDistance
| Call_resetCaptureTargetByDistance
| Fire nat
| World "FlightObject list" "SAMissile list"

definition step :: "(SAMissile \<Rightarrow> SAMissile) \<Rightarrow> action \<Rightarrow> SNR \<Rightarrow> SNR" where
  "step destroyMissile a s =
     (case a of
        Call_setAzimut d \<Rightarrow> setAzimut d s
      | Call_setVerticalAngle d \<Rightarrow> setVerticalAngle d s
      | Call_setRadarRayWidth d \<Rightarrow> setRadarRayWidth d s
      | Call_addFlightObject fo \<Rightarrow> snr_addFlightObject fo s
      | Call_addMissile m \<Rightarrow> snr_addMissile m s
      | Call_setIndicatorTargetDistance d \<Rightarrow> setIndicatorTargetDistance d s
      | Call_captureTargetByDirection \<Rightarrow> captureTargetByDirection s
      | Call_resetCaptureTargetByDirection \<Rightarrow> resetCaptureTargetByDirection destroyMissile s
      | Call_captureTargetByDistance \<Rightarrow> captureTargetByDistance s
      | Call_resetCaptureTargetByDistance \<Rightarrow> resetCaptureTargetByDistance s
      | Fire h \<Rightarrow>
          (case map_of (intervals s) h of
             None \<Rightarrow> s
           | Some cb \<Rightarrow> run_callback destroyMissile cb s)
      | World fos ms \<Rightarrow>
          (if map fo_identifier fos = map fo_identifier (snr_flightObjects s) \<and>
              length ms = length (snr_missiles s)
           then s\<lparr>snr_flightObjects := fos, snr_missiles := ms\<rparr>
           else s))"

text \<open>The state after a list of actions, from a given state.\<close>

definition run :: "(SAMissile \<Rightarrow> SAMissile) \<Rightarrow> action list \<Rightarrow> SNR \<Rightarrow> SNR" where
  "run destroyMissile as s = fold (step destroyMissile) as s"

inductive reachable :: "(SAMissile \<Rightarrow> SAMissile) \<Rightarrow> SNR \<Rightarrow> bool"
  for destroyMissile :: "SAMissile \<Rightarrow> SAMissile" where
  reachable_new:
    "reachable destroyMissile (new_SNR ddr d0 w0 md rnd)"
| reachable_step:
    "reachable destroyMissile s \<Longrightarrow> reachable destroyMissile (step destroyMissile a s)"


section \<open>Concrete inputs\<close>

text \<open>
  The flight object of the scenario of the specification: at \<open>(50, 0, 5)\<close> km, flying
  at \<open>300\<close> with heading \<open>\<pi>\<close>, radar cross-section \<open>10\<close>.
\<close>

definition scenario_target :: FlightObject where
  "scenario_target =
     \<lparr>fo_identifier = ''target'',
      currentPoint = \<lparr>coord_x = Num 50, coord_y = Num 0, coord_z = Num 5, coord_v = Num 300\<rparr>,
      currentRotation = Math_PI,
      velocity = Num 300,
      rcs = Num 10,
      isLaunched = True,
      isDestroyed = False\<rparr>"


text \<open>
  The same object after \<open>isLaunched\<close> has been set back to false from outside, and the
  state of a radar that recognized the object while it was launched and now holds it
  grounded.
\<close>

definition grounded_target :: FlightObject where
  "grounded_target = scenario_target\<lparr>isLaunched := False\<rparr>"

definition stale_state :: SAM where
  "stale_state =
     (recalculateTargets (addFlightObject scenario_target new_SAM))
       \<lparr>flightObjects := [grounded_target]\<rparr>"

text \<open>The same object destroyed, and a radar that holds only it and no entry.\<close>

definition destroyed_target :: FlightObject where
  "destroyed_target = scenario_target\<lparr>isDestroyed := True\<rparr>"

definition wreck_state :: SAM where
  "wreck_state = addFlightObject destroyed_target new_SAM"

text \<open>
  The clamp of the specification, \<open>clamp(v, lo, hi)\<close>, to compare with the program's
  \<open>visibilityK > 1 ? 1 : visibilityK\<close>.
\<close>

definition clamp :: "number \<Rightarrow> number \<Rightarrow> number \<Rightarrow> number" where
  "clamp v lo hi = (if v < lo then lo else if hi < v then hi else v)"

text \<open>
  A flight object half a kilometre south of the scenario's, so that its azimuth is a
  little below zero and is stored a little below \<open>2\<pi>\<close>; the radar after one recompute
  over it; and the angle between two directions that are given in \<open>[0, 2\<pi>)\<close>.
\<close>

definition wrap_target :: FlightObject where
  "wrap_target =
     \<lparr>fo_identifier = ''low'',
      currentPoint =
        \<lparr>coord_x = Num 50, coord_y = Num (- 0.5), coord_z = Num 5, coord_v = Num 300\<rparr>,
      currentRotation = Math_PI,
      velocity = Num 300,
      rcs = Num 10,
      isLaunched = True,
      isDestroyed = False\<rparr>"

definition wrap_state :: SAM where
  "wrap_state = recalculateTargets (addFlightObject wrap_target new_SAM)"

definition angular_separation :: "real \<Rightarrow> real \<Rightarrow> real" where
  "angular_separation a b = min \<bar>a - b\<bar> (2 * pi - \<bar>a - b\<bar>)"


text \<open>
  The sweep scenario of the specification: a live missile at \<open>(10, 10, 5)\<close> whose target
  is \<open>0.5\<close> km away, with a kill radius of \<open>1\<close> km; a flight object \<open>0.5\<close> km from the
  missile and one \<open>10\<close> km from it, both at its height; one \<open>2\<close> km straight above the
  missile and one \<open>0.6\<close> km straight below it; and a second missile, already destroyed,
  whose snapshot is still in the table. Here \<open>kill()\<close> sets \<open>isDestroyed\<close> and
  \<open>destroyMissile()\<close> sets \<open>isDestroyedMissile\<close>.
\<close>

definition live_missile :: SAMissile where
  "live_missile =
     \<lparr>missile_identifier = 1,
      missileCurrentPoint =
        \<lparr>coord_x = Num 10, coord_y = Num 10, coord_z = Num 5, coord_v = Num 1200\<rparr>,
      missile_velocity = Num 1200,
      missileTargetDistance = Num 0.5,
      missileKillRadius = Num 1,
      isDestroyedMissile = False\<rparr>"

definition spent_missile :: SAMissile where
  "spent_missile = live_missile\<lparr>missile_identifier := 2, isDestroyedMissile := True\<rparr>"

definition near_object :: FlightObject where
  "near_object =
     scenario_target\<lparr>fo_identifier := ''near'',
       currentPoint :=
         \<lparr>coord_x = Num 10.3, coord_y = Num 10.4, coord_z = Num 5, coord_v = Num 300\<rparr>\<rparr>"

definition far_object :: FlightObject where
  "far_object =
     scenario_target\<lparr>fo_identifier := ''far'',
       currentPoint :=
         \<lparr>coord_x = Num 20, coord_y = Num 10, coord_z = Num 5, coord_v = Num 300\<rparr>\<rparr>"

definition above_object :: FlightObject where
  "above_object =
     scenario_target\<lparr>fo_identifier := ''above'',
       currentPoint :=
         \<lparr>coord_x = Num 10, coord_y = Num 10, coord_z = Num 7, coord_v = Num 300\<rparr>\<rparr>"

definition below_object :: FlightObject where
  "below_object =
     scenario_target\<lparr>fo_identifier := ''below'',
       currentPoint :=
         \<lparr>coord_x = Num 10, coord_y = Num 10, coord_z = Num 4.4, coord_v = Num 300\<rparr>\<rparr>"

definition mark_killed :: "FlightObject \<Rightarrow> FlightObject" where
  "mark_killed fo = fo\<lparr>isDestroyed := True\<rparr>"

definition mark_destroyed :: "SAMissile \<Rightarrow> SAMissile" where
  "mark_destroyed m = m\<lparr>isDestroyedMissile := True\<rparr>"

definition sweep_state :: SAM where
  "sweep_state =
     new_SAM\<lparr>flightObjects := [near_object, far_object, above_object, below_object],
             missiles := [live_missile, spent_missile],
             flightMissiles := [(2, snapshot spent_missile)]\<rparr>"

text \<open>
  A tracking radar as constructed, with a detection window of \<open>0.5\<close> km, the range
  cursor at \<open>50\<close> km, a beam \<open>4\<close> degrees wide and a maximal range of \<open>100\<close> km. Its beam
  points at azimuth \<open>-\<pi>/2\<close> and vertical angle \<open>0\<close>.
\<close>

definition snr0 :: SNR where
  "snr0 = new_SNR (Num 0.5) (Num 50) (Num 4) (Num 100) (\<lambda>n. Num 0.5)"

text \<open>
  Two flight objects at the same place, \<open>50\<close> km from the radar in the direction of the
  beam of \<open>snr0\<close> and at the height of its antenna, registered in the order \<open>A\<close>, \<open>B\<close>.
\<close>

definition capture_a :: FlightObject where
  "capture_a =
     \<lparr>fo_identifier = ''A'',
      currentPoint =
        \<lparr>coord_x = Num 0, coord_y = Num (- 50), coord_z = Num 0.036, coord_v = Num 300\<rparr>,
      currentRotation = Num 0,
      velocity = Num 300,
      rcs = Num 10,
      isLaunched = True,
      isDestroyed = False\<rparr>"

definition capture_b :: FlightObject where
  "capture_b = capture_a\<lparr>fo_identifier := ''B''\<rparr>"

definition snr_two :: SNR where
  "snr_two = snr_addFlightObject capture_b (snr_addFlightObject capture_a snr0)"

text \<open>Two states whose beams point alike and whose listeners are alike.\<close>

definition same_beam :: "SNR \<Rightarrow> SNR \<Rightarrow> bool" where
  "same_beam s s' = (azimut s = azimut s' \<and> verticalAngle s = verticalAngle s' \<and>
     rayWidth s = rayWidth s' \<and> radarHeight s = radarHeight s' \<and>
     eventListener s = eventListener s')"

text \<open>
  The distance state machine is tracking when \<open>trackTargetDistanceInterval\<close> holds a
  handle, the direction state machine when \<open>trackingTargetIdentifier\<close> holds an
  identifier. \<open>capture_consistent\<close> says that the first is idle when the second is.
  \<open>distanceTarget\<close> is the identifier of the flight object that the running distance
  follow loop is bound to.
\<close>

definition capture_consistent :: "SNR \<Rightarrow> bool" where
  "capture_consistent s =
     (trackingTargetIdentifier s = None \<longrightarrow> trackTargetDistanceInterval s = None)"

definition distanceTarget :: "SNR \<Rightarrow> string option" where
  "distanceTarget s =
     (case trackTargetDistanceInterval s of
        None \<Rightarrow> None
      | Some h \<Rightarrow>
          (case map_of (intervals s) h of
             Some (FollowDistance (Some i)) \<Rightarrow>
               (if i < length (snr_flightObjects s)
                then Some (fo_identifier (snr_flightObjects s ! i)) else None)
           | _ \<Rightarrow> None))"

text \<open>
  A course of events on the radar \<open>snr0\<close>, with every running interval firing between
  the calls: \<open>A\<close> is registered and captured by direction and then by distance; \<open>B\<close> is
  registered at the same place; direction capture is attempted again. The handle \<open>1\<close> is
  the interval of the constructor, \<open>2\<close> and \<open>5\<close> are direction follow loops, \<open>3\<close> is
  the distance follow loop.
\<close>

definition switch_actions :: "action list" where
  "switch_actions =
     [Call_addFlightObject capture_a, Call_captureTargetByDirection, Fire 1, Fire 2,
      Call_captureTargetByDistance, Fire 1, Fire 2, Fire 3,
      Call_addFlightObject capture_b, Fire 1, Fire 2, Fire 3,
      Call_captureTargetByDirection, Fire 1, Fire 3, Fire 5]"

definition switched :: SNR where
  "switched = run mark_destroyed switch_actions snr0"

section \<open>Properties of the surveillance radar\<close>

subsection \<open>Arithmetic\<close>

lemmas number_ops =
  plus_number_def uminus_number_def minus_number_def times_number_def divide_number_def
  abs_number_def less_number_def less_eq_number_def signed_infinity_def

lemma sqrt_2500: "sqrt 2500 = (50::real)"
  using real_sqrt_abs2[of "50::real"] by simp

lemma horizon_50: "(50::real) < sqrt (6371009 / 20000) + sqrt (6371009 / 100)"
proof -
  have "sqrt 2500 < sqrt (6371009 / 100 :: real)"
    by (subst real_sqrt_less_iff) simp
  moreover have "0 \<le> sqrt (6371009 / 20000 :: real)" by simp
  ultimately show ?thesis unfolding sqrt_2500 by linarith
qed

subsection \<open>One flight object, then the loop\<close>

lemma recalculateTarget_eq:
  "recalculateTarget fo s =
     (if \<not> isLaunched fo then s
      else if recognizable fo then
        s\<lparr>recognizedTargets := AList.update (fo_identifier fo) (targetEntry fo) (recognizedTargets s)\<rparr>
      else s\<lparr>emitted := emitted s @ [Delete (fo_identifier fo)],
             recognizedTargets := AList.delete (fo_identifier fo) (recognizedTargets s)\<rparr>)"
  by (simp add: recalculateTarget_def recognizable_def horizonVisible_def inElevationGate_def
      targetEntry_def sam_distance_def sam_azimut_def sam_elevation_def sam_targetAngle_def
      eventListener_call_def Let_def)

lemma lookup_recalculateTarget:
  "map_of (recognizedTargets (recalculateTarget fo s)) k =
     (if isLaunched fo \<and> k = fo_identifier fo
      then (if recognizable fo then Some (targetEntry fo) else None)
      else map_of (recognizedTargets s) k)"
  by (simp add: recalculateTarget_eq update_conv' delete_conv')

lemma emitted_recalculateTarget:
  "emitted (recalculateTarget fo s) =
     emitted s @ (if isLaunched fo \<and> \<not> recognizable fo then [Delete (fo_identifier fo)] else [])"
  by (simp add: recalculateTarget_eq)

lemma emitted_fold_recalculateTarget:
  "emitted (fold recalculateTarget fos s) =
     emitted s @ map (\<lambda>fo. Delete (fo_identifier fo))
                   (filter (\<lambda>fo. isLaunched fo \<and> \<not> recognizable fo) fos)"
  by (induction fos arbitrary: s) (simp_all add: emitted_recalculateTarget)

lemma flightObjects_fold_recalculateTarget:
  "flightObjects (fold recalculateTarget fos s) = flightObjects s"
  by (induction fos arbitrary: s) (simp_all add: recalculateTarget_eq)

lemma lookup_fold_other:
  "k \<notin> fo_identifier ` set fos \<Longrightarrow>
   map_of (recognizedTargets (fold recalculateTarget fos s)) k = map_of (recognizedTargets s) k"
  by (induction fos arbitrary: s) (simp_all add: lookup_recalculateTarget)

lemma lookup_fold_member:
  "distinct (map fo_identifier fos) \<Longrightarrow> fo \<in> set fos \<Longrightarrow>
   map_of (recognizedTargets (fold recalculateTarget fos s)) (fo_identifier fo) =
     (if isLaunched fo
      then (if recognizable fo then Some (targetEntry fo) else None)
      else map_of (recognizedTargets s) (fo_identifier fo))"
proof (induction fos arbitrary: s)
  case Nil
  then show ?case by simp
next
  case (Cons a fos)
  show ?case
  proof (cases "fo = a")
    case True
    with Cons.prems have "fo_identifier fo \<notin> fo_identifier ` set fos" by auto
    then show ?thesis using True
      by (simp add: lookup_fold_other lookup_recalculateTarget)
  next
    case False
    with Cons.prems have mem: "fo \<in> set fos" and d: "distinct (map fo_identifier fos)"
      and ne: "fo_identifier fo \<noteq> fo_identifier a" by (auto simp: image_iff)
    show ?thesis using Cons.IH[OF d mem, of "recalculateTarget a s"] ne
      by (simp add: lookup_recalculateTarget)
  qed
qed

subsection \<open>The scenario of the specification\<close>

lemma scenario_recognizable: "recognizable scenario_target"
  using pi_ge_two horizon_50
  by (simp add: recognizable_def horizonVisible_def inElevationGate_def isInVision_def
      sam_distance_def sam_elevation_def scenario_target_def RADAR_HEIGHT_def MIN_ELEVATION_def
      MAX_ELEVATION_def Math_PI_def number_ops sqrt_2500)

lemma scenario_entry:
  "targetEntry scenario_target =
     \<lparr>t_identifier = ''target'', t_distance = Num 50, t_azimut = Num 0,
      t_elevation = Num ((5 - 0.025) / 50), t_radialVelocity = Num 300,
      t_velocity = Num 300, t_height = Num 5, t_param = Num 0,
      t_x = Num 50, t_y = Num 0, t_rotation = Num pi,
      t_size = Num (2 * sqrt (10 / pi) / 1000), t_visibilityK = Num 1\<rparr>"
  by (simp add: targetEntry_def sam_distance_def sam_azimut_def sam_elevation_def
      sam_targetAngle_def scenario_target_def RADAR_HEIGHT_def MAX_DISTANCE_def Math_PI_def
      number_ops sqrt_2500 atan2_def)

lemma scenario_lookup:
  "map_of (recognizedTargets (recalculateTargets (addFlightObject scenario_target new_SAM)))
     ''target'' = Some (targetEntry scenario_target)"
proof -
  have "map_of (recognizedTargets (recalculateTargets (addFlightObject scenario_target new_SAM)))
          (fo_identifier scenario_target) = Some (targetEntry scenario_target)"
    using scenario_recognizable
    by (simp add: recalculateTargets_def addFlightObject_def new_SAM_def
        lookup_recalculateTarget scenario_target_def)
  then show ?thesis by (simp add: scenario_target_def)
qed

text \<open>
  C4, as the program has it. After one recompute over the scenario's flight object (radar
  height \<open>0.025\<close>) the table holds an entry for it with distance \<open>50\<close>, azimuth \<open>0\<close>,
  elevation \<open>(5 - 0.025) / 50\<close> and radial velocity \<open>+300\<close>: the angle off the nose is
  \<open>\<bar>0 - \<pi>\<bar> - \<pi> = 0\<close>, and the radial velocity is \<open>300 \<sqdot> cos 0\<close>. A target flying
  towards the radar has a positive radial velocity.
\<close>

theorem scenario_recognized_radial_velocity_positive:
  "map_of (recognizedTargets (recalculateTargets (addFlightObject scenario_target new_SAM)))
     ''target'' =
   Some \<lparr>t_identifier = ''target'', t_distance = Num 50, t_azimut = Num 0,
         t_elevation = Num ((5 - 0.025) / 50), t_radialVelocity = Num 300,
         t_velocity = Num 300, t_height = Num 5, t_param = Num 0,
         t_x = Num 50, t_y = Num 0, t_rotation = Num pi,
         t_size = Num (2 * sqrt (10 / pi) / 1000), t_visibilityK = Num 1\<rparr>"
  using scenario_lookup by (simp add: scenario_entry)

text \<open>
  C4, as stated, fails: the radial velocity of the scenario's entry is \<open>300\<close>, which is
  not within \<open>1\<close> of \<open>-300\<close>.
\<close>

theorem scenario_radial_velocity_counterexample:
  "map_option t_radialVelocity
     (map_of (recognizedTargets (recalculateTargets (addFlightObject scenario_target new_SAM)))
        ''target'') = Some (Num 300) \<and>
   \<not> \<bar>Num 300 - Num (- 300)\<bar> < Num 1"
  using scenario_lookup by (simp add: scenario_entry number_ops)

subsection \<open>Which flight objects have an entry after a recompute\<close>

lemma recalculateTargets_lookup:
  "distinct (map fo_identifier (flightObjects s)) \<Longrightarrow> fo \<in> set (flightObjects s) \<Longrightarrow>
   map_of (recognizedTargets (recalculateTargets s)) (fo_identifier fo) =
     (if isLaunched fo
      then (if recognizable fo then Some (targetEntry fo) else None)
      else map_of (recognizedTargets s) (fo_identifier fo))"
  unfolding recalculateTargets_def by (rule lookup_fold_member)

text \<open>
  C1, as the program has it. Let the flight objects of the registry carry distinct
  identifiers. After a recompute, a launched flight object has an entry under its
  identifier if and only if it is not destroyed, passes the horizon test and has its
  elevation strictly inside the bounds. A flight object that is not launched is skipped:
  it has an entry after the recompute if and only if it had one before.
\<close>

theorem recognized_iff:
  assumes "distinct (map fo_identifier (flightObjects s))"
    and "fo \<in> set (flightObjects s)"
  shows "map_of (recognizedTargets (recalculateTargets s)) (fo_identifier fo) \<noteq> None \<longleftrightarrow>
      (if isLaunched fo
       then \<not> isDestroyed fo \<and> horizonVisible fo \<and> inElevationGate fo
       else map_of (recognizedTargets s) (fo_identifier fo) \<noteq> None)"
  using assms by (simp add: recalculateTargets_lookup recognizable_def)

theorem recognized_iff_witness:
  "distinct (map fo_identifier (flightObjects (addFlightObject scenario_target new_SAM))) \<and>
   scenario_target \<in> set (flightObjects (addFlightObject scenario_target new_SAM)) \<and>
   isLaunched scenario_target \<and>
   map_of (recognizedTargets (recalculateTargets (addFlightObject scenario_target new_SAM)))
     (fo_identifier scenario_target) \<noteq> None"
proof -
  have d: "distinct (map fo_identifier (flightObjects (addFlightObject scenario_target new_SAM)))"
    by (simp add: addFlightObject_def new_SAM_def)
  have m: "scenario_target \<in> set (flightObjects (addFlightObject scenario_target new_SAM))"
    by (simp add: addFlightObject_def new_SAM_def)
  have l: "isLaunched scenario_target" by (simp add: scenario_target_def)
  show ?thesis
    using recognized_iff[OF d m] scenario_recognizable d m l
    by (simp add: recognizable_def)
qed

text \<open>
  C1, as stated, fails. The radar of \<open>stale_state\<close> recognized the scenario's object
  in one recompute while the object was launched; the object is then no longer launched.
  The next recompute skips it, and its entry is still in the table.
\<close>

theorem unlaunched_entry_counterexample:
  "grounded_target \<in> set (flightObjects stale_state) \<and>
   \<not> isLaunched grounded_target \<and>
   map_of (recognizedTargets (recalculateTargets stale_state)) (fo_identifier grounded_target)
     \<noteq> None"
proof -
  have "map_of (recognizedTargets (recalculateTargets stale_state)) ''target''
          = Some (targetEntry scenario_target)"
    using scenario_lookup
    by (simp add: stale_state_def recalculateTargets_def grounded_target_def
        lookup_recalculateTarget scenario_target_def)
  then show ?thesis
    by (simp add: stale_state_def grounded_target_def scenario_target_def)
qed

subsection \<open>The \<open>delete\<close> events\<close>

lemma count_delete_events:
  "distinct (map fo_identifier fos) \<Longrightarrow> fo \<in> set fos \<Longrightarrow>
   count_list (map (\<lambda>fo. Delete (fo_identifier fo)) (filter P fos)) (Delete (fo_identifier fo))
     = (if P fo then 1 else 0)"
proof (induction fos)
  case Nil
  then show ?case by simp
next
  case (Cons a fos)
  show ?case
  proof (cases "fo = a")
    case True
    with Cons.prems have "fo_identifier fo \<notin> fo_identifier ` set fos" by auto
    then have "count_list (map (\<lambda>fo. Delete (fo_identifier fo)) (filter P fos))
                 (Delete (fo_identifier fo)) = 0"
      by (auto simp: count_list_0_iff)
    then show ?thesis using True by simp
  next
    case False
    with Cons.prems have mem: "fo \<in> set fos" and d: "distinct (map fo_identifier fos)"
      and ne: "fo_identifier fo \<noteq> fo_identifier a" by (auto simp: image_iff)
    show ?thesis using Cons.IH[OF d mem] ne by simp
  qed
qed

text \<open>
  C3, as the program has it. Let the flight objects of the registry carry distinct
  identifiers. For a launched flight object that is destroyed or fails the horizon test
  or the elevation gate, a recompute leaves no entry under its identifier and emits
  \<open>delete(id)\<close> exactly once, on every recompute, whether or not an entry was there. The
  events of one recompute are the \<open>delete\<close> events of these objects, in registry order.
\<close>

theorem delete_emitted_on_every_tick:
  assumes "distinct (map fo_identifier (flightObjects s))"
    and "fo \<in> set (flightObjects s)"
    and "isLaunched fo"
    and "isDestroyed fo \<or> \<not> horizonVisible fo \<or> \<not> inElevationGate fo"
  shows "map_of (recognizedTargets (recalculateTargets s)) (fo_identifier fo) = None \<and>
     emitted (recalculateTargets s) =
       emitted s @ map (\<lambda>fo. Delete (fo_identifier fo))
                     (filter (\<lambda>fo. isLaunched fo \<and> \<not> recognizable fo) (flightObjects s)) \<and>
     count_list (drop (length (emitted s)) (emitted (recalculateTargets s)))
       (Delete (fo_identifier fo)) = 1"
proof -
  have nr: "\<not> recognizable fo" using assms(4) by (auto simp: recognizable_def)
  have e: "emitted (recalculateTargets s) =
       emitted s @ map (\<lambda>fo. Delete (fo_identifier fo))
                     (filter (\<lambda>fo. isLaunched fo \<and> \<not> recognizable fo) (flightObjects s))"
    by (simp add: recalculateTargets_def emitted_fold_recalculateTarget)
  show ?thesis
    using assms(3) nr
    by (simp add: e recalculateTargets_lookup[OF assms(1,2)] count_delete_events[OF assms(1,2)])
qed

theorem delete_emitted_on_every_tick_witness:
  "distinct (map fo_identifier (flightObjects wreck_state)) \<and>
   destroyed_target \<in> set (flightObjects wreck_state) \<and>
   isLaunched destroyed_target \<and> isDestroyed destroyed_target \<and>
   map_of (recognizedTargets (recalculateTargets wreck_state)) (fo_identifier destroyed_target)
     = None \<and>
   count_list (drop (length (emitted wreck_state)) (emitted (recalculateTargets wreck_state)))
     (Delete (fo_identifier destroyed_target)) = 1"
proof -
  have d: "distinct (map fo_identifier (flightObjects wreck_state))"
    by (simp add: wreck_state_def addFlightObject_def new_SAM_def)
  have m: "destroyed_target \<in> set (flightObjects wreck_state)"
    by (simp add: wreck_state_def addFlightObject_def new_SAM_def)
  have l: "isLaunched destroyed_target"
    by (simp add: destroyed_target_def scenario_target_def)
  have x: "isDestroyed destroyed_target \<or> \<not> horizonVisible destroyed_target \<or>
           \<not> inElevationGate destroyed_target"
    by (simp add: destroyed_target_def)
  have k: "isDestroyed destroyed_target" by (simp add: destroyed_target_def)
  from delete_emitted_on_every_tick[OF d m l x] d m l k show ?thesis by blast
qed

text \<open>
  C3, as stated, fails. The radar of \<open>wreck_state\<close> holds one launched and destroyed
  flight object and no entry. The first recompute removes nothing and emits
  \<open>delete\<close>; the second, with still no entry, emits \<open>delete\<close> again.
\<close>

theorem delete_repeated_counterexample:
  "recognizedTargets wreck_state = [] \<and>
   emitted (recalculateTargets wreck_state) = [Delete ''target''] \<and>
   recognizedTargets (recalculateTargets wreck_state) = [] \<and>
   emitted (recalculateTargets (recalculateTargets wreck_state)) =
     [Delete ''target'', Delete ''target'']"
  by (simp add: wreck_state_def addFlightObject_def new_SAM_def recalculateTargets_def
      recalculateTarget_eq recognizable_def destroyed_target_def scenario_target_def)

subsection \<open>Bounds on a stored entry\<close>

lemma atan2_bounds: "- pi < atan2 y x \<and> atan2 y x \<le> pi"
proof -
  have b: "- (pi / 2) < arctan (y / x)" "arctan (y / x) < pi / 2"
    using arctan_bounded[of "y / x"] by simp_all
  have neg: "x < 0 \<Longrightarrow> 0 \<le> y \<Longrightarrow> arctan (y / x) \<le> 0"
    by (simp add: divide_nonneg_neg)
  have pos: "x < 0 \<Longrightarrow> y < 0 \<Longrightarrow> 0 < arctan (y / x)"
    by (simp add: divide_neg_neg)
  show ?thesis
    using b neg pos pi_gt_zero by (auto simp: atan2_def)
qed

lemma hypot_finite:
  "Math_hypot a b = Num d \<Longrightarrow> \<exists>a' b'. a = Num a' \<and> b = Num b'"
  by (cases a; cases b) simp_all

lemma stored_azimut_range:
  assumes "sam_distance fo = Num d"
  shows "Num 0 \<le> t_azimut (targetEntry fo) \<and> t_azimut (targetEntry fo) \<le> Num 2 * Math_PI"
proof -
  obtain x' y' where xy: "coord_x (currentPoint fo) = Num x'" "coord_y (currentPoint fo) = Num y'"
    using hypot_finite[of "coord_x (currentPoint fo)" "coord_y (currentPoint fo)" d] assms
    by (auto simp: sam_distance_def)
  show ?thesis
    using atan2_bounds[of y' x'] pi_gt_zero
    by (simp add: targetEntry_def sam_azimut_def xy number_ops Math_PI_def)
qed

lemma visibilityK_range:
  assumes "Num 0 \<le> rcs fo" and "Num 0 < sam_distance fo" and "sam_distance fo = Num d"
  shows "Num 0 \<le> t_visibilityK (targetEntry fo) \<and> t_visibilityK (targetEntry fo) \<le> Num 1 \<and>
         t_visibilityK (targetEntry fo) =
           clamp (MAX_DISTANCE * rcs fo / sam_distance fo) (Num 0) (Num 1)"
  using assms
  by (cases "rcs fo")
     (auto simp: targetEntry_def clamp_def number_ops MAX_DISTANCE_def divide_less_0_iff
        zero_le_divide_iff not_less)

lemma horizonVisible_finite: "horizonVisible fo \<Longrightarrow> Num 0 < sam_distance fo \<Longrightarrow> \<exists>d. sam_distance fo = Num d"
  by (cases "sam_distance fo") (simp_all add: horizonVisible_def isInVision_def number_ops)


text \<open>
  What holds of a stored entry in exact arithmetic and in the program's alike. Let the
  flight objects of the registry carry distinct identifiers, and let a flight object be
  launched and not destroyed, with a radar cross-section that is not negative, at a
  positive ground distance, inside the horizon and inside the elevation gate. After a
  recompute the table holds an entry for it whose visibility coefficient lies in
  \<open>[0, 1]\<close> and equals \<open>clamp(MAX_DISTANCE \<sqdot> rcs / distance, 0, 1)\<close>, and whose azimuth
  is \<open>atan2(y, x)\<close>, plus \<open>2\<pi>\<close> when that is negative, and lies between \<open>0\<close> and \<open>2\<pi>\<close>.
\<close>

lemma entry_visibility_and_azimut:
  assumes "distinct (map fo_identifier (flightObjects s))"
    and "fo \<in> set (flightObjects s)"
    and "isLaunched fo" and "\<not> isDestroyed fo"
    and "Num 0 \<le> rcs fo" and "Num 0 < sam_distance fo"
    and "horizonVisible fo" and "inElevationGate fo"
  shows "\<exists>e. map_of (recognizedTargets (recalculateTargets s)) (fo_identifier fo) = Some e \<and>
     Num 0 \<le> t_visibilityK e \<and> t_visibilityK e \<le> Num 1 \<and>
     Num 0 \<le> t_azimut e \<and> t_azimut e \<le> Num 2 * Math_PI \<and>
     t_azimut e = (if sam_azimut fo < Num 0 then Num 2 * Math_PI + sam_azimut fo
                   else sam_azimut fo) \<and>
     t_visibilityK e = clamp (MAX_DISTANCE * rcs fo / sam_distance fo) (Num 0) (Num 1)"
proof -
  obtain d where d: "sam_distance fo = Num d"
    using horizonVisible_finite[OF assms(7) assms(6)] by blast
  have r: "recognizable fo" using assms(4,7,8) by (simp add: recognizable_def)
  have l: "map_of (recognizedTargets (recalculateTargets s)) (fo_identifier fo)
             = Some (targetEntry fo)"
    using assms(3) r by (simp add: recalculateTargets_lookup[OF assms(1,2)])
  have a: "t_azimut (targetEntry fo) =
             (if sam_azimut fo < Num 0 then Num 2 * Math_PI + sam_azimut fo else sam_azimut fo)"
    by (simp add: targetEntry_def)
  show ?thesis
    using l a stored_azimut_range[OF d] visibilityK_range[OF assms(5,6) d] by blast
qed

subsection \<open>The correlation query at the seam of the azimuth range\<close>

lemma arctan_le_self: "0 \<le> x \<Longrightarrow> arctan x \<le> x"
proof -
  assume x: "0 \<le> x"
  let ?f = "\<lambda>u. u - arctan u"
  have "\<And>u. 0 \<le> u \<Longrightarrow> u \<le> x \<Longrightarrow> \<exists>y. (?f has_real_derivative y) (at u) \<and> 0 \<le> y"
  proof -
    fix u :: real
    have "(?f has_real_derivative (1 - inverse (1 + u\<^sup>2))) (at u)"
      by (auto intro!: derivative_eq_intros)
    moreover have "0 \<le> 1 - inverse (1 + u\<^sup>2)"
      by (simp add: inverse_le_1_iff)
    ultimately show "\<exists>y. (?f has_real_derivative y) (at u) \<and> 0 \<le> y" by blast
  qed
  then have "?f 0 \<le> ?f x" by (rule DERIV_nonneg_imp_nondecreasing[OF x])
  then show ?thesis by simp
qed

lemma wrap_distance_bounds: "50 < sqrt (10001 / 4 :: real)" "sqrt (10001 / 4 :: real) < 51"
proof -
  have "sqrt 2500 < sqrt (10001 / 4 :: real)" by (subst real_sqrt_less_iff) simp
  then show "50 < sqrt (10001 / 4 :: real)" by (simp add: sqrt_2500)
  have "sqrt (10001 / 4 :: real) < sqrt (51 * 51)" by (subst real_sqrt_less_iff) simp
  then show "sqrt (10001 / 4 :: real) < 51" using real_sqrt_abs2[of "51::real"] by simp
qed

lemma wrap_horizon:
  "sqrt (10001 / 4 :: real) < sqrt (6371009 / 20000) + sqrt (6371009 / 100)"
proof -
  have "sqrt (10001 / 4 :: real) < sqrt (6371009 / 100)"
    by (subst real_sqrt_less_iff) simp
  moreover have "0 \<le> sqrt (6371009 / 20000 :: real)" by simp
  ultimately show ?thesis by linarith
qed

lemma wrap_gate:
  fixes d :: real
  assumes "50 < d"
  shows "- (pi / 36) < 199 / (40 * d)" and "1791 / (20 * d) < 5 * pi"
proof -
  have "0 < 199 / (40 * d)" using assms by simp
  moreover have "- (pi / 36) < 0" by simp
  ultimately show "- (pi / 36) < 199 / (40 * d)" by linarith
  have "1791 / (20 * d) < 10" using assms by (simp add: divide_less_eq)
  then show "1791 / (20 * d) < 5 * pi" using pi_ge_two by linarith
qed

lemma wrap_recognizable: "recognizable wrap_target"
  using wrap_horizon wrap_gate[OF wrap_distance_bounds(1)]
  by (simp add: recognizable_def horizonVisible_def inElevationGate_def isInVision_def
      sam_distance_def sam_elevation_def wrap_target_def RADAR_HEIGHT_def MIN_ELEVATION_def
      MAX_ELEVATION_def Math_PI_def number_ops)

lemma wrap_table: "recognizedTargets wrap_state = [(''low'', targetEntry wrap_target)]"
  using wrap_recognizable
  by (simp add: wrap_state_def recalculateTargets_def addFlightObject_def new_SAM_def
      recalculateTarget_eq wrap_target_def)

lemma wrap_azimut: "t_azimut (targetEntry wrap_target) = Num (2 * pi - arctan (1 / 100))"
  by (simp add: targetEntry_def sam_azimut_def wrap_target_def atan2_def number_ops Math_PI_def
      arctan_minus)

lemma wrap_small: "0 < arctan (1 / 100 :: real)" "arctan (1 / 100 :: real) < pi / 90"
proof -
  show "0 < arctan (1 / 100 :: real)" by simp
  have "arctan (1 / 100 :: real) \<le> 1 / 100" by (rule arctan_le_self) simp
  moreover have "(1 / 100 :: real) < pi / 90" using pi_ge_two by simp
  ultimately show "arctan (1 / 100 :: real) < pi / 90" by linarith
qed

text \<open>
  C10. The radar of \<open>wrap_state\<close> has recognized one target, whose stored azimuth is
  \<open>2\<pi> - arctan (1/100)\<close>, in \<open>[0, 2\<pi>)\<close>. The direction of azimuth \<open>0\<close> is
  \<open>arctan (1/100)\<close> away from it, which is less than half of
  \<open>RADAR_AZIMUT_DETECT_ACCURACY\<close>, and the query is made at the target's own elevation;
  yet \<open>getTargetOnAzimutAndElevation\<close> at azimuth \<open>0\<close> returns \<open>null\<close>, because it
  compares the plain difference of the two numbers.
\<close>

theorem wraparound_not_matched:
  "recognizedTargets wrap_state = [(''low'', targetEntry wrap_target)] \<and>
   t_azimut (targetEntry wrap_target) = Num (2 * pi - arctan (1 / 100)) \<and>
   0 \<le> 2 * pi - arctan (1 / 100) \<and> 2 * pi - arctan (1 / 100) < 2 * pi \<and>
   Num (angular_separation (2 * pi - arctan (1 / 100)) 0)
     < RADAR_AZIMUT_DETECT_ACCURACY / Num 2 \<and>
   \<bar>t_elevation (targetEntry wrap_target) - t_elevation (targetEntry wrap_target)\<bar>
     \<le> RADAR_ELEVATION_DETECT_ACCURACY / Num 2 \<and>
   getTargetOnAzimutAndElevation wrap_state (Num 0) (t_elevation (targetEntry wrap_target))
     = None"
proof -
  have sep: "angular_separation (2 * pi - arctan (1 / 100)) 0 = arctan (1 / 100)"
    using wrap_small pi_ge_two by (simp add: angular_separation_def min_def)
  have el: "\<exists>e. t_elevation (targetEntry wrap_target) = Num e"
    by (simp add: targetEntry_def sam_elevation_def sam_distance_def wrap_target_def
        RADAR_HEIGHT_def number_ops)
  then obtain e where e: "t_elevation (targetEntry wrap_target) = Num e" by blast
  have far: "\<not> \<bar>2 * pi - arctan (1 / 100)\<bar> \<le> pi / 90"
    using wrap_small pi_ge_two by simp
  have q: "getTargetOnAzimutAndElevation wrap_state (Num 0) (t_elevation (targetEntry wrap_target))
     = None"
    using far
    by (simp add: getTargetOnAzimutAndElevation_def wrap_table wrap_azimut e
        RADAR_AZIMUT_DETECT_ACCURACY_def number_ops Math_PI_def)
  show ?thesis
    using wrap_small pi_ge_two q[unfolded e]
    by (simp add: wrap_table wrap_azimut sep e RADAR_AZIMUT_DETECT_ACCURACY_def
        RADAR_ELEVATION_DETECT_ACCURACY_def number_ops Math_PI_def)
qed

subsection \<open>The stored azimuth at the seam\<close>






subsection \<open>The missile sweep\<close>

lemma Math_pow2_times: "Math_pow2 a = a * a"
  by (cases a) (simp_all add: times_number_def)

lemma distanceToMissile_euclidean:
  "distanceToMissile fo m = euclidean_distance (currentPoint fo) (missileCurrentPoint m)"
  by (simp add: distanceToMissile_def euclidean_distance_def Math_pow2_times Let_def)

lemma euclidean_distance_finite:
  "euclidean_distance
     \<lparr>coord_x = Num x, coord_y = Num y, coord_z = Num z, coord_v = v\<rparr>
     \<lparr>coord_x = Num a, coord_y = Num b, coord_z = Num c, coord_v = w\<rparr> =
   Num (sqrt ((x - a)\<^sup>2 + (y - b)\<^sup>2 + (z - c)\<^sup>2))"
proof -
  have "0 \<le> (x - a) * (x - a) + (y - b) * (y - b) + (z - c) * (z - c)"
    by (intro add_nonneg_nonneg zero_le_square)
  then show ?thesis
    by (simp add: euclidean_distance_def number_ops power2_eq_square not_less)
qed

lemma recalculateMissile_eq:
  "recalculateMissile kill dm i s =
     (let m = missiles s ! i
      in if isDestroyedMissile m then
           s\<lparr>flightMissiles := AList.delete (missile_identifier m) (flightMissiles s)\<rparr>
         else if detonates m then
           s\<lparr>flightMissiles := AList.update (missile_identifier m) (snapshot m) (flightMissiles s),
             missiles := (missiles s)[i := dm m],
             flightObjects := killNear kill (dm m) (flightObjects s)\<rparr>
         else
           s\<lparr>flightMissiles := AList.update (missile_identifier m) (snapshot m) (flightMissiles s)\<rparr>)"
  by (simp add: recalculateMissile_def detonates_def killNear_def snapshot_def Let_def
      distanceToMissile_euclidean)

lemma missiles_recalculateMissile:
  "missiles (recalculateMissile kill dm i s) =
     (missiles s)[i := (if detonates (missiles s ! i) then dm (missiles s ! i) else missiles s ! i)]"
  by (simp add: recalculateMissile_eq Let_def detonates_def)

lemma flightObjects_recalculateMissile:
  "flightObjects (recalculateMissile kill dm i s) =
     (if detonates (missiles s ! i) then killNear kill (dm (missiles s ! i)) (flightObjects s)
      else flightObjects s)"
  by (simp add: recalculateMissile_eq Let_def detonates_def)

lemma lookup_recalculateMissile:
  "map_of (flightMissiles (recalculateMissile kill dm i s)) k =
     (if k = missile_identifier (missiles s ! i)
      then (if isDestroyedMissile (missiles s ! i) then None else Some (snapshot (missiles s ! i)))
      else map_of (flightMissiles s) k)"
  by (simp add: recalculateMissile_eq Let_def update_conv' delete_conv')

lemma sweep_prefix_missiles:
  "k \<le> length (missiles s) \<Longrightarrow>
   missiles (fold (recalculateMissile kill dm) [0..<k] s) =
     map (\<lambda>m. if detonates m then dm m else m) (take k (missiles s)) @ drop k (missiles s)"
proof (induction k)
  case 0
  then show ?case by simp
next
  case (Suc k)
  then have k: "k < length (missiles s)" by simp
  let ?g = "\<lambda>m. if detonates m then dm m else m"
  let ?s = "fold (recalculateMissile kill dm) [0..<k] s"
  have ms: "missiles ?s = map ?g (take k (missiles s)) @ drop k (missiles s)"
    using Suc by simp
  have len: "length (missiles ?s) = length (missiles s)"
    using k by (simp add: ms)
  have nth: "missiles ?s ! k = missiles s ! k"
    using k by (simp add: ms nth_append)
  have tk: "take k (missiles ?s) = map ?g (take k (missiles s))"
    using k by (simp add: ms)
  have dr: "drop (Suc k) (missiles ?s) = drop (Suc k) (missiles s)"
    using k by (simp add: ms)
  have "missiles (recalculateMissile kill dm k ?s) = (missiles ?s)[k := ?g (missiles s ! k)]"
    by (simp only: missiles_recalculateMissile nth)
  also have "\<dots> = take k (missiles ?s) @ ?g (missiles s ! k) # drop (Suc k) (missiles ?s)"
    using k len by (simp only: upd_conv_take_nth_drop)
  also have "\<dots> = map ?g (take (Suc k) (missiles s)) @ drop (Suc k) (missiles s)"
    using k by (simp only: tk dr take_Suc_conv_app_nth) simp
  finally show ?case by simp
qed

lemma sweep_prefix_flightObjects:
  "k \<le> length (missiles s) \<Longrightarrow>
   flightObjects (fold (recalculateMissile kill dm) [0..<k] s) =
     fold (\<lambda>m fos. if detonates m then killNear kill (dm m) fos else fos)
       (take k (missiles s)) (flightObjects s)"
proof (induction k)
  case 0
  then show ?case by simp
next
  case (Suc k)
  then have k: "k < length (missiles s)" by simp
  let ?s = "fold (recalculateMissile kill dm) [0..<k] s"
  have nth: "missiles ?s ! k = missiles s ! k"
    using k by (simp add: sweep_prefix_missiles nth_append)
  show ?case
    using k Suc
    by (simp add: flightObjects_recalculateMissile nth take_Suc_conv_app_nth)
qed

lemma sweep_prefix_lookup_other:
  "k \<le> length (missiles s) \<Longrightarrow> key \<notin> missile_identifier ` set (take k (missiles s)) \<Longrightarrow>
   map_of (flightMissiles (fold (recalculateMissile kill dm) [0..<k] s)) key =
     map_of (flightMissiles s) key"
proof (induction k)
  case 0
  then show ?case by simp
next
  case (Suc k)
  then have k: "k < length (missiles s)" by simp
  let ?s = "fold (recalculateMissile kill dm) [0..<k] s"
  have nth: "missiles ?s ! k = missiles s ! k"
    using k by (simp add: sweep_prefix_missiles nth_append)
  from Suc.prems(2) k have a: "key \<notin> missile_identifier ` set (take k (missiles s))"
    and b: "key \<noteq> missile_identifier (missiles s ! k)"
    by (auto simp: take_Suc_conv_app_nth)
  show ?case
    using k Suc.IH[OF _ a] b by (simp add: lookup_recalculateMissile nth)
qed

lemma sweep_prefix_lookup:
  "distinct (map missile_identifier (missiles s)) \<Longrightarrow> k \<le> length (missiles s) \<Longrightarrow>
   j < k \<Longrightarrow>
   map_of (flightMissiles (fold (recalculateMissile kill dm) [0..<k] s))
       (missile_identifier (missiles s ! j)) =
     (if isDestroyedMissile (missiles s ! j) then None else Some (snapshot (missiles s ! j)))"
proof (induction k)
  case 0
  then show ?case by simp
next
  case (Suc k)
  then have k: "k < length (missiles s)" by simp
  let ?s = "fold (recalculateMissile kill dm) [0..<k] s"
  have nth: "missiles ?s ! k = missiles s ! k"
    using k by (simp add: sweep_prefix_missiles nth_append)
  show ?case
  proof (cases "j = k")
    case True
    then show ?thesis using k by (simp add: lookup_recalculateMissile nth)
  next
    case False
    with Suc.prems have j: "j < k" by simp
    have "missile_identifier (missiles s ! j) \<noteq> missile_identifier (missiles s ! k)"
      using Suc.prems(1) j k by (simp add: distinct_conv_nth)
    then show ?thesis
      using k Suc.IH[OF Suc.prems(1) _ j] by (simp add: lookup_recalculateMissile nth)
  qed
qed


text \<open>
  C8. Let the missiles of the registry carry distinct identifiers. In one sweep,
  \<open>destroyMissile()\<close> is called on exactly the missiles that are live with their target
  within their kill radius. Each such missile, in registry order, has \<open>kill()\<close> called
  on exactly the flight objects whose Euclidean distance in three dimensions from the
  missile's position is at most its kill radius (position and radius as they are after
  \<open>destroyMissile()\<close>); the other flight objects are left as they are. For finite
  coordinates that distance is \<open>sqrt ((x - a)\<^sup>2 + (y - b)\<^sup>2 + (z - c)\<^sup>2)\<close>. After the sweep
  a missile that was destroyed before it has no snapshot, and every other missile has
  the snapshot of its position and velocity.
\<close>

theorem missile_sweep:
  assumes "distinct (map missile_identifier (missiles s))"
  shows "missiles (recalculateMissiles kill destroyMissile s) =
       map (\<lambda>m. if detonates m then destroyMissile m else m) (missiles s) \<and>
     flightObjects (recalculateMissiles kill destroyMissile s) =
       fold (\<lambda>m fos.
               if detonates m then
                 map (\<lambda>fo. if euclidean_distance (currentPoint fo)
                                 (missileCurrentPoint (destroyMissile m))
                               \<le> missileKillRadius (destroyMissile m)
                           then kill fo else fo) fos
               else fos)
         (missiles s) (flightObjects s) \<and>
     (\<forall>m \<in> set (missiles s).
        map_of (flightMissiles (recalculateMissiles kill destroyMissile s)) (missile_identifier m) =
          (if isDestroyedMissile m then None else Some (snapshot m))) \<and>
     (\<forall>x y z v a b c w.
        euclidean_distance
          \<lparr>coord_x = Num x, coord_y = Num y, coord_z = Num z, coord_v = v\<rparr>
          \<lparr>coord_x = Num a, coord_y = Num b, coord_z = Num c, coord_v = w\<rparr> =
        Num (sqrt ((x - a)\<^sup>2 + (y - b)\<^sup>2 + (z - c)\<^sup>2)))"
proof -
  have a: "missiles (recalculateMissiles kill destroyMissile s) =
       map (\<lambda>m. if detonates m then destroyMissile m else m) (missiles s)"
    using sweep_prefix_missiles[of "length (missiles s)" s kill destroyMissile]
    by (simp add: recalculateMissiles_def)
  have b: "flightObjects (recalculateMissiles kill destroyMissile s) =
       fold (\<lambda>m fos.
               if detonates m then
                 map (\<lambda>fo. if euclidean_distance (currentPoint fo)
                                 (missileCurrentPoint (destroyMissile m))
                               \<le> missileKillRadius (destroyMissile m)
                           then kill fo else fo) fos
               else fos)
         (missiles s) (flightObjects s)"
    using sweep_prefix_flightObjects[of "length (missiles s)" s kill destroyMissile,
        unfolded killNear_def]
    by (simp add: recalculateMissiles_def)
  have c: "map_of (flightMissiles (recalculateMissiles kill destroyMissile s))
             (missile_identifier m) =
           (if isDestroyedMissile m then None else Some (snapshot m))"
    if "m \<in> set (missiles s)" for m
  proof -
    from that obtain j where j: "j < length (missiles s)" "missiles s ! j = m"
      by (auto simp: in_set_conv_nth)
    show ?thesis
      using sweep_prefix_lookup[OF assms le_refl j(1), of kill destroyMissile] j(2)
      by (simp add: recalculateMissiles_def)
  qed
  show ?thesis using a b c euclidean_distance_finite by blast
qed

lemma sqrt_quarter: "sqrt (1 / 4) = (1 / 2 :: real)"
  using real_sqrt_abs2[of "1 / 2 :: real"] by simp

lemma sweep_distances:
  "euclidean_distance (currentPoint near_object)
     (missileCurrentPoint (mark_destroyed live_missile)) = Num 0.5"
  "euclidean_distance (currentPoint far_object)
     (missileCurrentPoint (mark_destroyed live_missile)) = Num 10"
  "euclidean_distance (currentPoint above_object)
     (missileCurrentPoint (mark_destroyed live_missile)) = Num 2"
  "euclidean_distance (currentPoint below_object)
     (missileCurrentPoint (mark_destroyed live_missile)) = Num 0.6"
  using real_sqrt_abs2[of "10::real"] real_sqrt_abs2[of "2::real"]
    real_sqrt_abs2[of "3 / 5::real"]
  by (simp_all add: euclidean_distance_def near_object_def far_object_def above_object_def
      below_object_def mark_destroyed_def live_missile_def scenario_target_def number_ops
      sqrt_quarter)

theorem missile_sweep_witness:
  "distinct (map missile_identifier (missiles sweep_state)) \<and>
   detonates live_missile \<and> \<not> detonates spent_missile \<and>
   distanceToMissile near_object (mark_destroyed live_missile) = Num 0.5 \<and>
   distanceToMissile far_object (mark_destroyed live_missile) = Num 10 \<and>
   distanceToMissile above_object (mark_destroyed live_missile) = Num 2 \<and>
   distanceToMissile below_object (mark_destroyed live_missile) = Num 0.6 \<and>
   missiles (recalculateMissiles mark_killed mark_destroyed sweep_state) =
     [mark_destroyed live_missile, spent_missile] \<and>
   flightObjects (recalculateMissiles mark_killed mark_destroyed sweep_state) =
     [mark_killed near_object, far_object, above_object, mark_killed below_object] \<and>
   map_of (flightMissiles (recalculateMissiles mark_killed mark_destroyed sweep_state)) 1 =
     Some (snapshot live_missile) \<and>
   map_of (flightMissiles (recalculateMissiles mark_killed mark_destroyed sweep_state)) 2 = None"
proof -
  have d: "distinct (map missile_identifier (missiles sweep_state))"
    by (simp add: sweep_state_def new_SAM_def live_missile_def spent_missile_def)
  have l: "detonates live_missile" and sp: "\<not> detonates spent_missile"
    by (simp_all add: detonates_def live_missile_def spent_missile_def number_ops)
  have dist: "distanceToMissile near_object (mark_destroyed live_missile) = Num 0.5"
    "distanceToMissile far_object (mark_destroyed live_missile) = Num 10"
    "distanceToMissile above_object (mark_destroyed live_missile) = Num 2"
    "distanceToMissile below_object (mark_destroyed live_missile) = Num 0.6"
    by (simp_all only: distanceToMissile_euclidean sweep_distances)
  have r: "missileKillRadius (mark_destroyed live_missile) = Num 1"
    by (simp add: mark_destroyed_def live_missile_def)
  have ids: "missile_identifier live_missile = 1" "missile_identifier spent_missile = 2"
    "isDestroyedMissile spent_missile" "\<not> isDestroyedMissile live_missile"
    by (simp_all add: live_missile_def spent_missile_def)
  have ms: "missiles sweep_state = [live_missile, spent_missile]"
    and fos: "flightObjects sweep_state =
                [near_object, far_object, above_object, below_object]"
    by (simp_all add: sweep_state_def new_SAM_def)
  from missile_sweep[OF d, of mark_killed mark_destroyed]
  have "missiles (recalculateMissiles mark_killed mark_destroyed sweep_state) =
     [mark_destroyed live_missile, spent_missile]"
   and "flightObjects (recalculateMissiles mark_killed mark_destroyed sweep_state) =
     [mark_killed near_object, far_object, above_object, mark_killed below_object]"
   and "map_of (flightMissiles (recalculateMissiles mark_killed mark_destroyed sweep_state))
          (missile_identifier live_missile) = Some (snapshot live_missile)"
   and "map_of (flightMissiles (recalculateMissiles mark_killed mark_destroyed sweep_state))
          (missile_identifier spent_missile) = None"
    by (simp_all add: ms fos l sp sweep_distances r ids number_ops)
  then show ?thesis using d l sp dist by (simp add: ids)
qed

section \<open>Properties of the tracking radar\<close>

subsection \<open>\<open>setAzimut\<close>\<close>

lemma degrees_range_iff:
  fixes t :: real
  shows "(- pi < t * pi / 180 \<and> t * pi / 180 \<le> pi) \<longleftrightarrow> (- 180 < t \<and> t \<le> 180)"
proof -
  have a: "t * pi / 180 \<le> pi \<longleftrightarrow> t \<le> 180"
    using mult_le_cancel_right_pos[OF pi_gt_zero, of t 180] by (simp add: field_simps)
  have b: "- pi < t * pi / 180 \<longleftrightarrow> - 180 < t"
    using mult_less_cancel_right_pos[OF pi_gt_zero, of "- 180" t] by (simp add: field_simps)
  show ?thesis by (simp only: a b)
qed

lemma setAzimut_stored:
  "azimut (setAzimut (Num d) s) =
     Num ((d - 360 * (if d \<le> - 90 then - 1 else if d \<le> 270 then 0
                      else if d \<le> 630 then 1 else 2) - 90) * pi / 180)"
  by (simp add: setAzimut_def screen_def Let_def number_ops Math_PI_def)

text \<open>
  C9, as the program has it. \<open>setAzimut(370)\<close> leaves the radar in the state that
  \<open>setAzimut(10)\<close> leaves it in. For every finite input \<open>d\<close> the method changes the
  degrees by whole turns only, removing at most two and adding at most one, and stores
  them in radians with an offset of \<open>90\<close> degrees: the stored azimuth is
  \<open>(d - 360 \<sqdot> k - 90) \<sqdot> \<pi> / 180\<close> for a whole \<open>k\<close> from \<open>-1\<close> to \<open>2\<close>. The stored azimuth
  lies in \<open>(-\<pi>, \<pi>]\<close> exactly when \<open>-450 < d \<le> 990\<close>.
\<close>

theorem setAzimut_wraps_within_range:
  "setAzimut (Num 370) s = setAzimut (Num 10) s \<and>
   (\<exists>k :: int. - 1 \<le> k \<and> k \<le> 2 \<and>
      azimut (setAzimut (Num d) s) = Num ((d - 360 * of_int k - 90) * pi / 180)) \<and>
   ((\<exists>a. azimut (setAzimut (Num d) s) = Num a \<and> - pi < a \<and> a \<le> pi) \<longleftrightarrow>
      (- 450 < d \<and> d \<le> 990))"
proof -
  let ?k = "if d \<le> - 90 then - 1 else if d \<le> 270 then 0 else if d \<le> 630 then 1 else 2 :: int"
  have r: "setAzimut (Num 370) s = setAzimut (Num 10) s"
    by (simp add: setAzimut_def Let_def number_ops)
  have st: "azimut (setAzimut (Num d) s) = Num ((d - 360 * of_int ?k - 90) * pi / 180)"
    by (simp add: setAzimut_stored)
  have k: "- 1 \<le> ?k \<and> ?k \<le> 2" by simp
  have "(- 180 < d - 360 * of_int ?k - 90 \<and> d - 360 * of_int ?k - 90 \<le> 180) \<longleftrightarrow>
        (- 450 < d \<and> d \<le> 990)"
    by auto
  then have g: "(\<exists>a. azimut (setAzimut (Num d) s) = Num a \<and> - pi < a \<and> a \<le> pi) \<longleftrightarrow>
      (- 450 < d \<and> d \<le> 990)"
    by (simp only: st number.inject simp_thms ex_simps degrees_range_iff)
  show ?thesis using r st k g by blast
qed

theorem setAzimut_wraps_within_range_witness:
  "- 450 < (- 400 :: real) \<and> (- 400 :: real) \<le> 990 \<and>
   azimut (setAzimut (Num (- 400)) snr0) = Num (- 130 * pi / 180) \<and>
   (\<exists>a. azimut (setAzimut (Num (- 400)) snr0) = Num a \<and> - pi < a \<and> a \<le> pi) \<and>
   setAzimut (Num 370) snr0 = setAzimut (Num 10) snr0"
proof -
  have a: "- 450 < (- 400 :: real) \<and> (- 400 :: real) \<le> 990" by simp
  have v: "azimut (setAzimut (Num (- 400)) snr0) = Num (- 130 * pi / 180)"
    by (simp add: setAzimut_stored)
  from setAzimut_wraps_within_range[of snr0 "- 400"] a
  have "\<exists>a. azimut (setAzimut (Num (- 400)) snr0) = Num a \<and> - pi < a \<and> a \<le> pi"
    and "setAzimut (Num 370) snr0 = setAzimut (Num 10) snr0"
    by blast+
  then show ?thesis using a v by blast
qed

text \<open>
  C9, as stated, fails: \<open>1090\<close> is \<open>10\<close> plus three turns, and \<open>setAzimut(1090)\<close>
  stores \<open>280\<close> degrees in radians, which is above \<open>\<pi>\<close> and is not what
  \<open>setAzimut(10)\<close> stores.
\<close>

theorem setAzimut_three_turns_counterexample:
  "azimut (setAzimut (Num 1090) snr0) = Num (280 * pi / 180) \<and>
   azimut (setAzimut (Num 10) snr0) = Num (- 80 * pi / 180) \<and>
   \<not> azimut (setAzimut (Num 1090) snr0) \<le> Math_PI \<and>
   setAzimut (Num 1090) snr0 \<noteq> setAzimut (Num 10) snr0"
proof -
  have a: "azimut (setAzimut (Num 1090) snr0) = Num (280 * pi / 180)"
    by (simp add: setAzimut_def screen_def Let_def number_ops Math_PI_def)
  have b: "azimut (setAzimut (Num 10) snr0) = Num (- 80 * pi / 180)"
    by (simp add: setAzimut_def screen_def Let_def number_ops Math_PI_def)
  have c: "\<not> azimut (setAzimut (Num 1090) snr0) \<le> Math_PI"
    unfolding a by (simp add: number_ops Math_PI_def)
  have "azimut (setAzimut (Num 1090) snr0) \<noteq> azimut (setAzimut (Num 10) snr0)"
    unfolding a b by simp
  then have d: "setAzimut (Num 1090) snr0 \<noteq> setAzimut (Num 10) snr0" by auto
  show ?thesis using a b c d by blast
qed

subsection \<open>The resets\<close>

lemma clearIfSet_fields [simp]:
  "effects (clearIfSet h s) = effects s"
  "eventListener (clearIfSet h s) = eventListener s"
  "trackTargetInterval (clearIfSet h s) = trackTargetInterval s"
  "trackTargetDistanceInterval (clearIfSet h s) = trackTargetDistanceInterval s"
  "trackingTargetIdentifier (clearIfSet h s) = trackingTargetIdentifier s"
  "snr_flightObjects (clearIfSet h s) = snr_flightObjects s"
  "snr_missiles (clearIfSet h s) = snr_missiles s"
  "azimut (clearIfSet h s) = azimut s"
  "verticalAngle (clearIfSet h s) = verticalAngle s"
  "rayWidth (clearIfSet h s) = rayWidth s"
  "radarHeight (clearIfSet h s) = radarHeight s"
  "targetDistance (clearIfSet h s) = targetDistance s"
  "distanceDetectRange (clearIfSet h s) = distanceDetectRange s"
  by (simp_all add: clearIfSet_def clearInterval_def split: option.splits)

lemma emit_fields [simp]:
  "effects (emit e s) = effects s @ (if eventListener s then [e] else [])"
  "eventListener (emit e s) = eventListener s"
  "trackTargetInterval (emit e s) = trackTargetInterval s"
  "trackTargetDistanceInterval (emit e s) = trackTargetDistanceInterval s"
  "trackingTargetIdentifier (emit e s) = trackingTargetIdentifier s"
  "snr_flightObjects (emit e s) = snr_flightObjects s"
  "snr_missiles (emit e s) = snr_missiles s"
  "azimut (emit e s) = azimut s"
  "verticalAngle (emit e s) = verticalAngle s"
  "rayWidth (emit e s) = rayWidth s"
  "radarHeight (emit e s) = radarHeight s"
  "targetDistance (emit e s) = targetDistance s"
  "distanceDetectRange (emit e s) = distanceDetectRange s"
  by (simp_all add: emit_def)

lemma resetCaptureTargetByDistance_fields [simp]:
  "effects (resetCaptureTargetByDistance s) =
     effects s @ (if eventListener s then [Event_isCapturedByDistance False] else [])"
  "eventListener (resetCaptureTargetByDistance s) = eventListener s"
  "trackTargetInterval (resetCaptureTargetByDistance s) = trackTargetInterval s"
  "trackTargetDistanceInterval (resetCaptureTargetByDistance s) = None"
  "trackingTargetIdentifier (resetCaptureTargetByDistance s) = trackingTargetIdentifier s"
  "snr_flightObjects (resetCaptureTargetByDistance s) = snr_flightObjects s"
  by (simp_all add: resetCaptureTargetByDistance_def Let_def)

lemma resetCaptureTargetByDirection_fields [simp]:
  "effects (resetCaptureTargetByDirection dm s) =
     effects s @ (if eventListener s
                  then [Event_isCapturedByDirection False, Event_isCapturedByDistance False]
                  else [])"
  "eventListener (resetCaptureTargetByDirection dm s) = eventListener s"
  "trackTargetInterval (resetCaptureTargetByDirection dm s) = None"
  "trackTargetDistanceInterval (resetCaptureTargetByDirection dm s) = None"
  "trackingTargetIdentifier (resetCaptureTargetByDirection dm s) = None"
  "snr_flightObjects (resetCaptureTargetByDirection dm s) = snr_flightObjects s"
  by (simp_all add: resetCaptureTargetByDirection_def Let_def)

text \<open>
  C2, as the program has it. In every state, a call of \<open>resetCaptureTargetByDirection\<close>
  leaves both state machines idle and, when a listener is set, emits exactly one
  \<open>isCapturedByDirection = false\<close> event followed by one \<open>isCapturedByDistance = false\<close>
  event, whether or not a capture was active. Two calls in succession emit two
  \<open>isCapturedByDirection = false\<close> events.
\<close>

theorem direction_reset_emits_on_every_call:
  "effects (resetCaptureTargetByDirection destroyMissile s) =
     effects s @ (if eventListener s
                  then [Event_isCapturedByDirection False, Event_isCapturedByDistance False]
                  else []) \<and>
   count_list
     (drop (length (effects s))
        (effects (resetCaptureTargetByDirection destroyMissile
                    (resetCaptureTargetByDirection destroyMissile s))))
     (Event_isCapturedByDirection False) = (if eventListener s then 2 else 0) \<and>
   trackTargetInterval (resetCaptureTargetByDirection destroyMissile s) = None \<and>
   trackingTargetIdentifier (resetCaptureTargetByDirection destroyMissile s) = None \<and>
   trackTargetDistanceInterval (resetCaptureTargetByDirection destroyMissile s) = None"
  by simp

text \<open>
  C2, as stated, fails: on the radar as constructed, which is idle, two resets in
  succession emit \<open>isCapturedByDirection = false\<close> twice.
\<close>

theorem direction_reset_twice_counterexample:
  "effects
     (resetCaptureTargetByDirection mark_destroyed
        (resetCaptureTargetByDirection mark_destroyed snr0)) =
     [Event_isCapturedByDirection False, Event_isCapturedByDistance False,
      Event_isCapturedByDirection False, Event_isCapturedByDistance False] \<and>
   count_list
     (effects
        (resetCaptureTargetByDirection mark_destroyed
           (resetCaptureTargetByDirection mark_destroyed snr0)))
     (Event_isCapturedByDirection False) = 2"
proof -
  have "eventListener snr0" "effects snr0 = []" by (simp_all add: snr0_def new_SNR_def)
  then show ?thesis by simp
qed

subsection \<open>Capture by direction\<close>

lemma trackTargetByDirection_fields [simp]:
  "trackingTargetIdentifier (trackTargetByDirection i fo s) = Some (fo_identifier fo)"
  "trackTargetInterval (trackTargetByDirection i fo s) = Some (nextHandle s)"
  "trackTargetDistanceInterval (trackTargetByDirection i fo s) = trackTargetDistanceInterval s"
  "effects (trackTargetByDirection i fo s) = effects s"
  "eventListener (trackTargetByDirection i fo s) = eventListener s"
  "snr_flightObjects (trackTargetByDirection i fo s) = snr_flightObjects s"
  "azimut (trackTargetByDirection i fo s) = azimut s"
  "verticalAngle (trackTargetByDirection i fo s) = verticalAngle s"
  "rayWidth (trackTargetByDirection i fo s) = rayWidth s"
  "radarHeight (trackTargetByDirection i fo s) = radarHeight s"
  by (simp_all add: trackTargetByDirection_def setInterval_def Let_def clearIfSet_def
      clearInterval_def split: option.splits)

lemma capturedByDirection_cong:
  "azimut s = azimut s' \<Longrightarrow> verticalAngle s = verticalAngle s' \<Longrightarrow>
   rayWidth s = rayWidth s' \<Longrightarrow> radarHeight s = radarHeight s' \<Longrightarrow>
   capturedByDirection s fo = capturedByDirection s' fo"
  by (simp add: capturedByDirection_def)

lemma captureByDirection_step_eq:
  "same_beam s s0 \<Longrightarrow>
   captureByDirection_step (i, fo) s =
     (if capturedByDirection s0 fo
      then emit (Event_isCapturedByDirection True) (trackTargetByDirection i fo s) else s)"
  using capturedByDirection_cong[of s s0 fo]
  by (simp add: captureByDirection_step_def same_beam_def)

lemma same_beam_step:
  "same_beam s s0 \<Longrightarrow> same_beam (captureByDirection_step (i, fo) s) s0"
  by (simp add: captureByDirection_step_def same_beam_def)

lemma captureByDirection_fold:
  "same_beam s s0 \<Longrightarrow>
   trackingTargetIdentifier (fold captureByDirection_step (enumerate n fos) s) =
     (case filter (capturedByDirection s0) fos of
        [] \<Rightarrow> trackingTargetIdentifier s
      | m # ms \<Rightarrow> Some (fo_identifier (last (m # ms)))) \<and>
   effects (fold captureByDirection_step (enumerate n fos) s) =
     effects s @ (if eventListener s0
                  then replicate (length (filter (capturedByDirection s0) fos))
                         (Event_isCapturedByDirection True)
                  else [])"
proof (induction fos arbitrary: s n)
  case Nil
  then show ?case by simp
next
  case (Cons a fos)
  have sb: "same_beam (captureByDirection_step (n, a) s) s0"
    using Cons.prems by (rule same_beam_step)
  have el: "eventListener s = eventListener s0" using Cons.prems by (simp add: same_beam_def)
  show ?case
    using Cons.IH[OF sb, of "Suc n"] el
    by (simp add: captureByDirection_step_eq[OF Cons.prems] split: list.splits)
qed


text \<open>
  C5, as the program has it. \<open>captureTargetByDirection\<close> tests every flight object
  against the beam as it is when the method is called, and starts tracking anew at each
  one that meets both tolerances. When at least one does, the tracked identifier after
  the call is that of the last such object in registry order, and one
  \<open>isCapturedByDirection = true\<close> event has been emitted for each such object.
\<close>

theorem direction_capture_takes_last_match:
  assumes "filter (capturedByDirection s) (snr_flightObjects s) \<noteq> []"
  shows "trackingTargetIdentifier (captureTargetByDirection s) =
       Some (fo_identifier (last (filter (capturedByDirection s) (snr_flightObjects s)))) \<and>
     effects (captureTargetByDirection s) =
       effects s @ (if eventListener s
                    then replicate (length (filter (capturedByDirection s) (snr_flightObjects s)))
                           (Event_isCapturedByDirection True)
                    else [])"
proof -
  have sb: "same_beam s s" by (simp add: same_beam_def)
  show ?thesis
    using captureByDirection_fold[OF sb, of 0 "snr_flightObjects s"] assms
    by (simp add: captureTargetByDirection_def split: list.splits)
qed

lemma snr_two_fields:
  "snr_flightObjects snr_two = [capture_a, capture_b]"
  "azimut snr_two = Num (- (pi / 2))" "verticalAngle snr_two = Num 0"
  "rayWidth snr_two = Num 4" "radarHeight snr_two = Num 36"
  "eventListener snr_two" "effects snr_two = []" "trackingTargetIdentifier snr_two = None"
  by (simp_all add: snr_two_def snr_addFlightObject_def snr0_def new_SNR_def number_ops
      Math_PI_def)

lemma capture_a_matches: "capturedByDirection snr_two capture_a"
  by (simp add: capturedByDirection_def snr_two_fields capture_a_def number_ops Math_PI_def
      atan2_def sqrt_2500 Let_def)

lemma capture_b_matches: "capturedByDirection snr_two capture_b"
  using capture_a_matches by (simp add: capturedByDirection_def capture_b_def)

lemma snr_two_matches:
  "filter (capturedByDirection snr_two) (snr_flightObjects snr_two) = [capture_a, capture_b]"
  by (simp add: snr_two_fields capture_a_matches capture_b_matches)

theorem direction_capture_takes_last_match_witness:
  "filter (capturedByDirection snr_two) (snr_flightObjects snr_two) = [capture_a, capture_b] \<and>
   trackingTargetIdentifier (captureTargetByDirection snr_two) = Some ''B'' \<and>
   effects (captureTargetByDirection snr_two) =
     [Event_isCapturedByDirection True, Event_isCapturedByDirection True]"
proof -
  have ne: "filter (capturedByDirection snr_two) (snr_flightObjects snr_two) \<noteq> []"
    by (simp add: snr_two_matches)
  have b: "fo_identifier capture_b = ''B''" by (simp add: capture_b_def)
  from direction_capture_takes_last_match[OF ne]
  have "trackingTargetIdentifier (captureTargetByDirection snr_two) =
          Some (fo_identifier (last [capture_a, capture_b]))"
    and "effects (captureTargetByDirection snr_two) =
          effects snr_two @ (if eventListener snr_two
             then replicate (length [capture_a, capture_b]) (Event_isCapturedByDirection True)
             else [])"
    unfolding snr_two_matches by blast+
  then show ?thesis
    by (simp add: snr_two_matches b snr_two_fields(6,7) numeral_2_eq_2)
qed

text \<open>
  C5, as stated, fails: \<open>A\<close> and \<open>B\<close> both meet the tolerances, \<open>A\<close> is registered
  first, and the radar tracks \<open>B\<close> after the call.
\<close>

theorem direction_capture_first_match_counterexample:
  "snr_flightObjects snr_two = [capture_a, capture_b] \<and>
   capturedByDirection snr_two capture_a \<and> capturedByDirection snr_two capture_b \<and>
   fo_identifier capture_a = ''A'' \<and>
   trackingTargetIdentifier (captureTargetByDirection snr_two) = Some ''B''"
proof -
  have sb: "same_beam snr_two snr_two" by (simp add: same_beam_def)
  have b: "fo_identifier capture_b = ''B''" by (simp add: capture_b_def)
  have a: "fo_identifier capture_a = ''A''" by (simp add: capture_a_def)
  from captureByDirection_fold[OF sb, of 0 "snr_flightObjects snr_two"]
  have "trackingTargetIdentifier (captureTargetByDirection snr_two) =
          Some (fo_identifier (last [capture_a, capture_b]))"
    unfolding snr_two_matches captureTargetByDirection_def by simp
  then show ?thesis
    using capture_a_matches capture_b_matches a b by (simp add: snr_two_fields(1))
qed

subsection \<open>Capture by distance\<close>

lemma screen_fields [simp]:
  "effects (screen e s) = effects s @ [e]"
  "eventListener (screen e s) = eventListener s"
  "trackTargetInterval (screen e s) = trackTargetInterval s"
  "trackTargetDistanceInterval (screen e s) = trackTargetDistanceInterval s"
  "trackingTargetIdentifier (screen e s) = trackingTargetIdentifier s"
  "snr_flightObjects (screen e s) = snr_flightObjects s"
  by (simp_all add: screen_def)

lemma fold_preserves:
  assumes "\<And>x s. P s \<Longrightarrow> P (f x s)" and "P s"
  shows "P (fold f xs s)"
  using assms(2) by (induction xs arbitrary: s) (simp_all add: assms(1))

lemma consistent_resets:
  "capture_consistent (resetCaptureTargetByDistance s)"
  "capture_consistent (resetCaptureTargetByDirection dm s)"
  by (simp_all add: capture_consistent_def)

lemma consistent_steering:
  "capture_consistent s \<Longrightarrow> capture_consistent (setAzimut d s)"
  "capture_consistent s \<Longrightarrow> capture_consistent (setVerticalAngle d s)"
  "capture_consistent s \<Longrightarrow> capture_consistent (setRadarRayWidth d s)"
  "capture_consistent s \<Longrightarrow> capture_consistent (snr_addFlightObject fo s)"
  "capture_consistent s \<Longrightarrow> capture_consistent (snr_addMissile m s)"
  "capture_consistent s \<Longrightarrow> capture_consistent (setIndicatorTargetDistance d s)"
  by (simp_all add: capture_consistent_def setAzimut_def setVerticalAngle_def
      setRadarRayWidth_def snr_addFlightObject_def snr_addMissile_def
      setIndicatorTargetDistance_def Let_def)

lemma consistent_captureByDirection:
  "capture_consistent s \<Longrightarrow> capture_consistent (captureTargetByDirection s)"
  unfolding captureTargetByDirection_def
  by (rule fold_preserves)
     (auto simp: capture_consistent_def captureByDirection_step_def split: prod.splits)

lemma trackTargetByDistance_fields [simp]:
  "trackingTargetIdentifier (trackTargetByDistance s) = trackingTargetIdentifier s"
  "trackTargetDistanceInterval (trackTargetByDistance s) = Some (nextHandle s)"
  "effects (trackTargetByDistance s) = effects s"
  "eventListener (trackTargetByDistance s) = eventListener s"
  by (simp_all add: trackTargetByDistance_def setInterval_def Let_def clearIfSet_def
      clearInterval_def split: option.splits)

lemma captureByDistance_step_guard:
  "captureByDistance_step fo s \<noteq> s \<Longrightarrow> trackingTargetIdentifier s = Some (fo_identifier fo)"
  by (auto simp: captureByDistance_step_def Let_def split: if_splits)

lemma consistent_captureByDistance:
  "capture_consistent s \<Longrightarrow> capture_consistent (captureTargetByDistance s)"
  unfolding captureTargetByDistance_def
  by (rule fold_preserves)
     (auto simp: capture_consistent_def captureByDistance_step_def Let_def)

lemma captureTargetByDistance_idle:
  "trackingTargetIdentifier s = None \<Longrightarrow> captureTargetByDistance s = s"
proof -
  assume idle: "trackingTargetIdentifier s = None"
  have "fold captureByDistance_step fos s = s" for fos
    by (induction fos) (simp_all add: captureByDistance_step_def idle Let_def)
  then show ?thesis by (simp add: captureTargetByDistance_def)
qed

lemma consistent_followDirection:
  "capture_consistent s \<Longrightarrow> capture_consistent (followDirection dm i s)"
  by (simp add: capture_consistent_def followDirection_def Let_def)

lemma consistent_followDistance:
  "capture_consistent s \<Longrightarrow> capture_consistent (followDistance dm r s)"
  by (simp add: capture_consistent_def followDistance_def Let_def split: option.splits)

lemma Math_random_fields [simp]:
  "trackTargetDistanceInterval (snd (Math_random s)) = trackTargetDistanceInterval s"
  "trackingTargetIdentifier (snd (Math_random s)) = trackingTargetIdentifier s"
  by (simp_all add: Math_random_def)

lemma consistent_calculateTargetParams:
  "capture_consistent s \<Longrightarrow> capture_consistent (calculateTargetParams dm fo s)"
  by (simp add: capture_consistent_def calculateTargetParams_def Let_def split_beta)

lemma consistent_calculateMissile:
  "capture_consistent s \<Longrightarrow> capture_consistent (calculateMissile m s)"
  by (simp add: capture_consistent_def calculateMissile_def Let_def)

lemma consistent_run_callback:
  "capture_consistent s \<Longrightarrow> capture_consistent (run_callback dm cb s)"
  by (cases cb)
     (auto simp: run_callback_def calculateTargetsParams_def calculateMissiles_def
        intro!: fold_preserves consistent_calculateTargetParams consistent_calculateMissile
          consistent_followDirection consistent_followDistance)

lemma consistent_world:
  "capture_consistent s \<Longrightarrow>
   capture_consistent (s\<lparr>snr_flightObjects := fos, snr_missiles := ms\<rparr>)"
  by (simp add: capture_consistent_def)

lemma consistent_step:
  "capture_consistent s \<Longrightarrow> capture_consistent (step dm a s)"
  by (cases a)
     (simp_all add: step_def consistent_resets consistent_steering
        consistent_captureByDirection consistent_captureByDistance consistent_run_callback
        consistent_world split: option.splits)

lemma consistent_new: "capture_consistent (new_SNR ddr d0 w0 md rnd)"
  by (simp add: capture_consistent_def new_SNR_def)

lemma reachable_consistent: "reachable dm s \<Longrightarrow> capture_consistent s"
  by (induction rule: reachable.induct) (simp_all add: consistent_new consistent_step)

lemma reachable_run: "reachable dm s \<Longrightarrow> reachable dm (run dm as s)"
  unfolding run_def
  by (induction as arbitrary: s) (simp_all add: reachable_step)

lemma reachable_snr0: "reachable dm snr0"
  unfolding snr0_def by (rule reachable_new)

text \<open>
  What the guard of \<open>captureTargetByDistance\<close> and the cascade of
  \<open>resetCaptureTargetByDirection\<close> do achieve, flight objects being identified by
  strings. In every reachable state, when the tracked identifier is \<open>null\<close>, so is the
  handle of the distance follow loop. In any state with no tracked identifier
  \<open>captureTargetByDistance\<close> changes nothing and emits nothing, wherever the range cursor
  stands and whatever the flight objects are. In any state, the body of its loop starts
  distance tracking only at a flight object that carries the tracked identifier.
\<close>

lemma distance_capture_needs_direction_capture:
  "(reachable destroyMissile s \<longrightarrow> trackingTargetIdentifier s = None \<longrightarrow>
      trackTargetDistanceInterval s = None) \<and>
   (trackingTargetIdentifier s = None \<longrightarrow> captureTargetByDistance s = s) \<and>
   (\<forall>fo. captureByDistance_step fo s \<noteq> s \<longrightarrow>
      trackingTargetIdentifier s = Some (fo_identifier fo))"
  using reachable_consistent[of destroyMissile s] captureTargetByDistance_idle[of s]
    captureByDistance_step_guard[of _ s]
  by (auto simp: capture_consistent_def)

lemma reachable_snr_two: "reachable dm snr_two"
proof -
  have e: "snr_two = run dm [Call_addFlightObject capture_a, Call_addFlightObject capture_b] snr0"
    by (simp add: snr_two_def run_def step_def)
  show ?thesis unfolding e by (rule reachable_run[OF reachable_snr0])
qed

lemma distance_capture_idle_at_snr_two:
  "reachable mark_destroyed snr_two \<and>
   trackingTargetIdentifier snr_two = None \<and>
   snr_flightObjects snr_two = [capture_a, capture_b] \<and>
   \<bar>Math_hypot (coord_x (currentPoint capture_a)) (coord_y (currentPoint capture_a))
      - targetDistance snr_two\<bar> < distanceDetectRange snr_two \<and>
   trackTargetDistanceInterval snr_two = None \<and>
   captureTargetByDistance snr_two = snr_two"
proof -
  have r: "reachable mark_destroyed snr_two" by (rule reachable_snr_two)
  have i: "trackingTargetIdentifier snr_two = None" by (rule snr_two_fields)
  have w: "\<bar>Math_hypot (coord_x (currentPoint capture_a)) (coord_y (currentPoint capture_a))
      - targetDistance snr_two\<bar> < distanceDetectRange snr_two"
    by (simp add: capture_a_def snr_two_def snr_addFlightObject_def snr0_def new_SNR_def
        number_ops sqrt_2500)
  from distance_capture_needs_direction_capture[of mark_destroyed snr_two] r i
  have "trackTargetDistanceInterval snr_two = None \<and> captureTargetByDistance snr_two = snr_two"
    by blast
  then show ?thesis using r i w snr_two_fields(1) by blast
qed

lemma capture_ids:
  "fo_identifier capture_a = ''A''" "fo_identifier capture_b = ''B''"
  by (simp_all add: capture_a_def capture_b_def)

lemma capture_range:
  "Math_hypot (coord_x (currentPoint capture_a)) (coord_y (currentPoint capture_a)) = Num 50"
  "Math_hypot (coord_x (currentPoint capture_b)) (coord_y (currentPoint capture_b)) = Num 50"
  by (simp_all add: capture_a_def capture_b_def sqrt_2500)

lemma on_beam:
  assumes "azimut s = Num (- (pi / 2))" and "verticalAngle s = Num 0"
    and "rayWidth s = Num 4" and "radarHeight s = Num 36"
  shows "capturedByDirection s capture_a" and "capturedByDirection s capture_b"
proof -
  have "capturedByDirection s capture_a = capturedByDirection snr_two capture_a"
    by (rule capturedByDirection_cong) (simp_all add: assms snr_two_fields)
  then show "capturedByDirection s capture_a" using capture_a_matches by simp
  have "capturedByDirection s capture_b = capturedByDirection snr_two capture_b"
    by (rule capturedByDirection_cong) (simp_all add: assms snr_two_fields)
  then show "capturedByDirection s capture_b" using capture_b_matches by simp
qed

lemma capture_point:
  "coord_x (currentPoint capture_a) = Num 0" "coord_y (currentPoint capture_a) = Num (- 50)"
  "coord_z (currentPoint capture_a) = Num 0.036"
  "coord_x (currentPoint capture_b) = Num 0" "coord_y (currentPoint capture_b) = Num (- 50)"
  "coord_z (currentPoint capture_b) = Num 0.036"
  "isLaunched capture_a" "\<not> isDestroyed capture_a"
  "isLaunched capture_b" "\<not> isDestroyed capture_b"
  by (simp_all add: capture_a_def capture_b_def)

lemma switched_fields:
  "trackTargetDistanceInterval switched = Some 3"
  "trackingTargetIdentifier switched = Some ''B''"
  "intervals switched = [(1, Tick), (3, FollowDistance (Some 0)), (5, FollowDirection 1)]"
  "snr_flightObjects switched = [capture_a, capture_b]"
  by (simp_all add: switched_def switch_actions_def run_def step_def snr0_def new_SNR_def
      snr_addFlightObject_def captureTargetByDirection_def captureByDirection_step_def
      captureTargetByDistance_def captureByDistance_step_def trackTargetByDirection_def
      trackTargetByDistance_def setInterval_def clearIfSet_def clearInterval_def emit_def
      Let_def number_ops Math_PI_def capture_ids capture_range on_beam
      run_callback_def calculateTargetsParams_def calculateTargetParams_def
      calculateMissiles_def followDirection_def followDistance_def Math_random_def
      screen_def truthy_def capture_point atan2_def sqrt_2500 split_beta)

text \<open>
  C6. The program breaks the invariant that the distance state machine tracks only while
  the direction state machine tracks the same target. The state \<open>switched\<close> is reached
  by the course of events \<open>switch_actions\<close>: \<open>A\<close> is captured by direction and by
  distance, \<open>B\<close> is registered beside it, and direction capture is attempted again.
  In that state the distance follow loop, started while \<open>A\<close> was tracked, is still
  running and bound to \<open>A\<close>, and the direction state machine tracks \<open>B\<close>:
  \<open>trackTargetByDirection\<close> replaces the tracked target without touching the distance
  follow loop, which \<open>resetCaptureTargetByDirection\<close> does reset.
\<close>

theorem recapture_leaves_distance_loop_on_old_target:
  "reachable mark_destroyed switched \<and>
   trackTargetDistanceInterval switched \<noteq> None \<and>
   distanceTarget switched = Some ''A'' \<and>
   trackingTargetIdentifier switched = Some ''B''"
proof -
  have r: "reachable mark_destroyed switched"
    unfolding switched_def by (rule reachable_run[OF reachable_snr0])
  have "trackTargetDistanceInterval switched \<noteq> None"
    and "distanceTarget switched = Some ''A''"
    and "trackingTargetIdentifier switched = Some ''B''"
    by (simp_all add: switched_fields distanceTarget_def capture_ids)
  with r show ?thesis by blast
qed

end
